theory Spec2Isabelle
  imports Complex_Main
begin

section \<open>Values and NumPy primitives used by the colour distribution test\<close>

text \<open>
  The test is \<^verbatim>\<open>validation_code/ColorDistributionTest.py\<close>. Its arrays are
  one-dimensional NumPy arrays of floats, modelled as lists. A finite float is modelled by
  the real number it denotes (no rounding, no overflow); NaN is kept as a value of its own,
  because the normalisation of the histogram can produce it. Comparisons with NaN are
  false and arithmetic on NaN gives NaN, as in IEEE 754.
\<close>

datatype npfloat = Fin real | NaN

datatype error = KeyError | IndexError | ValueError | TypeError | AttributeError | IOError

definition ebind :: "error + 'a \<Rightarrow> ('a \<Rightarrow> error + 'b) \<Rightarrow> error + 'b" where
  "ebind m f = (case m of Inl e \<Rightarrow> Inl e | Inr x \<Rightarrow> f x)"

fun fl_lt :: "npfloat \<Rightarrow> npfloat \<Rightarrow> bool" where
  "fl_lt (Fin a) (Fin b) = (a < b)"
| "fl_lt _ _ = False"

fun fl_add :: "npfloat \<Rightarrow> npfloat \<Rightarrow> npfloat" where
  "fl_add (Fin a) (Fin b) = Fin (a + b)"
| "fl_add _ _ = NaN"

fun fl_sub :: "npfloat \<Rightarrow> npfloat \<Rightarrow> npfloat" where
  "fl_sub (Fin a) (Fin b) = Fin (a - b)"
| "fl_sub _ _ = NaN"

fun fl_mul :: "npfloat \<Rightarrow> npfloat \<Rightarrow> npfloat" where
  "fl_mul (Fin a) (Fin b) = Fin (a * b)"
| "fl_mul _ _ = NaN"

text \<open>
  An elementwise binary operation on two arrays broadcasts an array of length 1 against
  the other one and raises ValueError on any other mismatch of the lengths.
\<close>

definition np_binop :: "('a \<Rightarrow> 'b \<Rightarrow> 'c) \<Rightarrow> 'a list \<Rightarrow> 'b list \<Rightarrow> error + 'c list" where
  "np_binop f xs ys =
     (if length xs = length ys then Inr (map2 f xs ys)
      else if length xs = 1 then Inr (map (\<lambda>y. f (xs ! 0) y) ys)
      else if length ys = 1 then Inr (map (\<lambda>x. f x (ys ! 0)) xs)
      else Inl ValueError)"

text \<open>The read of position \<open>i\<close> of an array that may have been broadcast.\<close>

definition bget :: "'a list \<Rightarrow> nat \<Rightarrow> 'a" where
  "bget xs i = (if length xs = 1 then xs ! 0 else xs ! i)"

text \<open>
  \<^verbatim>\<open>a[mask]\<close> with a boolean array: the elements of \<open>a\<close> at the positions where the
  mask is true. In the NumPy the test was written for, a mask whose length differs from the
  array's is read as the list of its true positions, and a position outside the array
  raises IndexError.
\<close>

definition np_bool_index :: "'a list \<Rightarrow> bool list \<Rightarrow> error + 'a list" where
  "np_bool_index xs msk =
     (let idx = filter (\<lambda>i. msk ! i) [0..<length msk]
      in if list_all (\<lambda>i. i < length xs) idx then Inr (map (\<lambda>i. xs ! i) idx)
         else Inl IndexError)"

text \<open>\<^verbatim>\<open>np.sum(mask)\<close>: the number of true entries.\<close>

definition np_sum_bool :: "bool list \<Rightarrow> nat" where
  "np_sum_bool msk = length (filter (\<lambda>b. b) msk)"

section \<open>The cumulative distribution (lines 175-178 and 205-208)\<close>

text \<open>
  \<^verbatim>\<open>
  ocdf = np.zeros(len(ohist))
  ocdf[0] = ohist[0]
  for cdf_index in range(1, len(ohist)):
      ocdf[cdf_index] = ocdf[cdf_index-1]+ohist[cdf_index]
  \<close>
  The same four lines build the catalog's CDF from \<open>mhist\<close>. Reading position 0 of an
  empty histogram raises IndexError.
\<close>

definition cdf_step :: "npfloat list \<Rightarrow> npfloat list \<Rightarrow> nat \<Rightarrow> npfloat list" where
  "cdf_step h cdf i = cdf[i := fl_add (cdf ! (i - 1)) (h ! i)]"

definition build_cdf :: "npfloat list \<Rightarrow> error + npfloat list" where
  "build_cdf h =
     (if h = [] then Inl IndexError
      else Inr (foldl (cdf_step h) ((replicate (length h) (Fin 0))[0 := h ! 0])
                  [1..<length h]))"

section \<open>Configuration, catalog reader and the other collaborators\<close>

text \<open>
  The attributes that \<^verbatim>\<open>__init__\<close> sets and the test never changes afterwards.
  \<^verbatim>\<open>__init__\<close> checks that every colour has three characters with \<^verbatim>\<open>-\<close> in the
  middle, that \<open>color_bin_args\<close>, when given, has one triple per colour, and that it is
  given when \<open>plot_pdf_q\<close> is set; the run below raises where a configuration that
  bypasses those checks would make Python raise.
\<close>

record test_config =
  colors :: "string list"
  color_bin_args :: "(real \<times> real \<times> int) list option"
  translate :: "string \<rightharpoonup> string"
  limiting_band :: "string option"
  limiting_mag :: "real option"
  zlo_mock :: real
  zhi_mock :: real
  zlo_obs :: real
  zhi_obs :: real
  data_name :: string
  plot_pdf_q :: bool

text \<open>
  The catalog reader is outside the test: \<open>quantities\<close> is the set of names it declares,
  \<open>get_quantities\<close> the array it returns for a name and a redshift window.
\<close>

record catalog =
  quantities :: "string set"
  get_quantities :: "string \<Rightarrow> real \<times> real \<Rightarrow> npfloat list"

text \<open>
  A labelled dataset is the dictionary \<^verbatim>\<open>{'x': ..., 'y': ...}\<close>, kept as the list of its
  items; \<^verbatim>\<open>len\<close> of a dictionary is the number of its keys.
\<close>

type_synonym dataset = "(string \<times> npfloat list) list"

text \<open>
  What the run takes from outside the class: \<open>loadtxt\<close> is \<^verbatim>\<open>np.loadtxt\<close> on the file of
  that name in the validation data directory (the rows of the table, or the error it
  raises); \<open>L2Diff\<close>, \<open>L1Diff\<close> and \<open>KS_test\<close> are the functions imported from
  \<^verbatim>\<open>CalcStats\<close>, each returning a value and a success flag; the remaining fields are
  the conversions \<^verbatim>\<open>%G\<close>, \<^verbatim>\<open>%1.3f\<close>, \<^verbatim>\<open>%1.2f\<close> and \<^verbatim>\<open>%d\<close> of Python's string
  formatting. Plotting is not modelled.
\<close>

record collaborators =
  loadtxt :: "string \<Rightarrow> error + npfloat list list"
  L2Diff :: "dataset \<Rightarrow> dataset \<Rightarrow> npfloat \<times> bool"
  L1Diff :: "dataset \<Rightarrow> dataset \<Rightarrow> npfloat \<times> bool"
  KS_test :: "dataset \<Rightarrow> dataset \<Rightarrow> npfloat \<times> bool"
  fmt_G :: "npfloat \<Rightarrow> string"
  fmt_1_3f :: "real \<Rightarrow> string"
  fmt_1_2f :: "real \<Rightarrow> string"
  fmt_d :: "int \<Rightarrow> string"

text \<open>
  What a run changes: the attributes \<open>band1\<close>, \<open>band2\<close> and \<open>validation_data\<close> of the
  test object, the lines appended to \<^verbatim>\<open>log.txt\<close> and \<^verbatim>\<open>summary.txt\<close> (one entry per
  \<^verbatim>\<open>f.write\<close>), and the two local flags.
\<close>

record run_state =
  band1 :: string
  band2 :: string
  validation_data :: "(npfloat list \<times> npfloat list) option"
  log_file :: "string list"
  summary_file :: "string list"
  no_cdf_q :: bool
  no_pdf_q :: bool

datatype test_result = TestResult string string

section \<open>\<^verbatim>\<open>load_validation_data\<close> (lines 353-363)\<close>

text \<open>
  \<^verbatim>\<open>binctr, hist = np.loadtxt(path)\<close>: the table must unpack into exactly two rows.
\<close>

definition load_validation_data ::
  "collaborators \<Rightarrow> string \<Rightarrow> error + (npfloat list \<times> npfloat list)" where
  "load_validation_data env filename =
     ebind (loadtxt env filename)
       (\<lambda>rows. case rows of [binctr, hist] \<Rightarrow> Inr (binctr, hist) | _ \<Rightarrow> Inl ValueError)"

section \<open>\<^verbatim>\<open>color_distribution\<close> (lines 298-351)\<close>

text \<open>
  Lines 320-332. With a limiting band the mask is
  \<^verbatim>\<open>(mag_lim<self.limiting_mag) & (mag1>0) & (mag1<50) & (mag2>0) & (mag2<50)\<close>,
  without one \<^verbatim>\<open>(mag1>0) & (mag1<50) & (mag2>0) & (mag2<50)\<close>; \<^verbatim>\<open>&\<close> associates to
  the left. Then \<^verbatim>\<open>mag1 = mag1[mask]\<close> and \<^verbatim>\<open>mag2 = mag2[mask]\<close>. A limiting band that
  \<open>translate\<close> does not know raises KeyError; a limiting band without a limiting
  magnitude compares an array with \<^verbatim>\<open>None\<close>, taken here as a TypeError.
\<close>

definition np_and :: "bool list \<Rightarrow> bool list \<Rightarrow> error + bool list" where
  "np_and a b = np_binop (\<lambda>p q. p \<and> q) a b"

definition validity_mask ::
  "npfloat list \<Rightarrow> npfloat list \<Rightarrow> bool list \<Rightarrow> error + bool list" where
  "validity_mask mag1 mag2 m0 =
     ebind (np_and m0 (map (\<lambda>x. fl_lt x (Fin 50)) mag1)) (\<lambda>m1.
     ebind (np_and m1 (map (\<lambda>x. fl_lt (Fin 0) x) mag2)) (\<lambda>m2.
     np_and m2 (map (\<lambda>x. fl_lt x (Fin 50)) mag2)))"

definition magnitude_mask ::
  "test_config \<Rightarrow> catalog \<Rightarrow> npfloat list \<Rightarrow> npfloat list \<Rightarrow> error + bool list" where
  "magnitude_mask cfg cat mag1 mag2 =
     (case limiting_band cfg of
        Some lb \<Rightarrow>
          (case translate cfg lb of
             None \<Rightarrow> Inl KeyError
           | Some limiting_band_name \<Rightarrow>
               (let mag_lim = get_quantities cat limiting_band_name (zlo_mock cfg, zhi_mock cfg)
                in case limiting_mag cfg of
                     None \<Rightarrow> Inl TypeError
                   | Some lm \<Rightarrow>
                       ebind (np_and (map (\<lambda>x. fl_lt x (Fin lm)) mag_lim)
                                     (map (\<lambda>x. fl_lt (Fin 0) x) mag1))
                         (validity_mask mag1 mag2)))
      | None \<Rightarrow> validity_mask mag1 mag2 (map (\<lambda>x. fl_lt (Fin 0) x) mag1))"

definition quantity_filter ::
  "test_config \<Rightarrow> catalog \<Rightarrow> npfloat list \<Rightarrow> npfloat list
     \<Rightarrow> error + (npfloat list \<times> npfloat list \<times> bool list)" where
  "quantity_filter cfg cat mag1 mag2 =
     ebind (magnitude_mask cfg cat mag1 mag2) (\<lambda>msk.
     ebind (np_bool_index mag1 msk) (\<lambda>mag1'.
     ebind (np_bool_index mag2 msk) (\<lambda>mag2'.
     Inr (mag1', mag2', msk))))"

text \<open>
  \<^verbatim>\<open>np.linspace(lo, hi, num)\<close>: \<open>num\<close> evenly spaced samples from \<open>lo\<close> to \<open>hi\<close>, both
  included; a single sample is \<open>lo\<close>, a negative \<open>num\<close> raises ValueError. (NumPy
  overwrites the last sample with \<open>hi\<close>; over the reals it already is \<open>hi\<close>.)
\<close>

definition np_linspace :: "real \<Rightarrow> real \<Rightarrow> int \<Rightarrow> error + real list" where
  "np_linspace lo hi num =
     (if num < 0 then Inl ValueError
      else if num = 1 then Inr [lo]
      else Inr (map (\<lambda>i. lo + real i * ((hi - lo) / real_of_int (num - 1))) [0..<nat num]))"

text \<open>
  \<^verbatim>\<open>np.histogram(a, bins=edges)\<close> with an array of edges: bin \<open>i\<close> counts the values
  \<open>x\<close> with \<open>edges[i] \<le> x < edges[i+1]\<close>, the last bin also those equal to the last
  edge; values outside every bin, and NaN, are not counted. There is one bin less than
  there are edges. Edges that decrease somewhere raise ValueError, no edge at all raises
  IndexError.
\<close>

definition in_bin :: "real list \<Rightarrow> nat \<Rightarrow> npfloat \<Rightarrow> bool" where
  "in_bin edges i v =
     (case v of
        NaN \<Rightarrow> False
      | Fin x \<Rightarrow> edges ! i \<le> x
                \<and> (x < edges ! (i + 1) \<or> (i + 2 = length edges \<and> x = edges ! (i + 1))))"

definition np_histogram :: "npfloat list \<Rightarrow> real list \<Rightarrow> error + nat list" where
  "np_histogram a edges =
     (if list_ex (\<lambda>i. edges ! (i + 1) < edges ! i) [0..<length edges - 1] then Inl ValueError
      else if edges = [] then Inl IndexError
      else Inr (map (\<lambda>i. length (filter (in_bin edges i) a)) [0..<length edges - 1]))"

text \<open>
  \<^verbatim>\<open>hist/np.sum(hist)\<close> under \<^verbatim>\<open>from __future__ import division\<close>: true division of
  each count by the total; when the total is 0 every count is 0 and \<open>0/0\<close> is NaN.
\<close>

definition np_true_divide :: "nat list \<Rightarrow> nat \<Rightarrow> npfloat list" where
  "np_true_divide hist tot =
     map (\<lambda>c. if tot = 0 then NaN else Fin (real c / real tot)) hist"

text \<open>
  The function reads \<open>self.band1\<close> and \<open>self.band2\<close> and appends to the log file, so it
  takes the two bands and the log and returns the log with the histogram. The result is
  the pair \<^verbatim>\<open>(binctr, hist)\<close> or \<^verbatim>\<open>(None, None)\<close>. \<^verbatim>\<open>Nbins = len(bins)-1.0\<close> is a float;
  the slice \<^verbatim>\<open>bins[:Nbins]\<close> takes the first \<open>len(bins)-1\<close> edges (the NumPy the test was
  written for truncates a float bound of a slice).
\<close>

definition color_distribution ::
  "test_config \<Rightarrow> catalog \<Rightarrow> string \<Rightarrow> string \<Rightarrow> real \<times> real \<times> int \<Rightarrow> string list
     \<Rightarrow> error + (string list \<times> npfloat list option \<times> npfloat list option)" where
  "color_distribution cfg cat b1 b2 bin_args lg =
     (let mag1 = get_quantities cat b1 (zlo_mock cfg, zhi_mock cfg);
          mag2 = get_quantities cat b2 (zlo_mock cfg, zhi_mock cfg)
      in if length mag1 = 0
         then Inr (lg @ [''No object in the redshift range!\<newline>''], None, None)
         else
           ebind (quantity_filter cfg cat mag1 mag2) (\<lambda>(mag1', mag2', msk).
             if np_sum_bool msk = 0
             then Inr (lg @ [''No object in the magnitude range!\<newline>''], None, None)
             else
               ebind (np_binop fl_sub mag1' mag2') (\<lambda>color.
               ebind (case bin_args of (lo, hi, num) \<Rightarrow> np_linspace lo hi num) (\<lambda>bins.
               ebind (np_histogram color bins) (\<lambda>hist.
                 let hist' = np_true_divide hist (sum_list hist);
                     Nbins = length bins - 1;
                     binctr = map2 (\<lambda>a b. Fin ((a + b) / 2)) (drop 1 bins) (take Nbins bins)
                 in Inr (lg, Some binctr, Some hist'))))))"

section \<open>\<^verbatim>\<open>run_validation_test\<close> (lines 139-296)\<close>

text \<open>
  Lines 226-241: the three statistics, each multiplied by \<^verbatim>\<open>np.sqrt(len(d1))\<close>, where
  \<open>d1\<close> is the catalog's dictionary.
\<close>

definition scaled_statistics ::
  "collaborators \<Rightarrow> npfloat list \<Rightarrow> npfloat list \<Rightarrow> npfloat list \<Rightarrow> npfloat list
     \<Rightarrow> (npfloat \<times> bool) \<times> (npfloat \<times> bool) \<times> (npfloat \<times> bool)" where
  "scaled_statistics env mbinctr mcdf obinctr ocdf =
     (let d1 = [(''x'', mbinctr), (''y'', mcdf)];
          d2 = [(''x'', obinctr), (''y'', ocdf)];
          (L2, L2_success) = L2Diff env d1 d2;
          L2 = fl_mul L2 (Fin (sqrt (real (length d1))));
          (L1, L1_success) = L1Diff env d1 d2;
          L1 = fl_mul L1 (Fin (sqrt (real (length d1))));
          (KS, KS_success) = KS_test env d1 d2;
          KS = fl_mul KS (Fin (sqrt (real (length d1))))
      in ((L2, L2_success), (L1, L1_success), (KS, KS_success)))"

text \<open>Lines 243-258: the three writes to the summary file.\<close>

definition summary_lines ::
  "collaborators \<Rightarrow> string \<Rightarrow> (npfloat \<times> bool) \<times> (npfloat \<times> bool) \<times> (npfloat \<times> bool)
     \<Rightarrow> string list" where
  "summary_lines env color stats =
     (case stats of ((L2, L2_success), (L1, L1_success), (KS, KS_success)) \<Rightarrow>
        [if L2_success
         then color @ '' SUCCESS: '' @ ''L2Diff'' @ '' = '' @ fmt_G env L2 @ ''\<newline>''
         else color @ '' FAILED: '' @ ''L2Diff'' @ '' = '' @ fmt_G env L2 @ ''\<newline>'',
         if L1_success
         then color @ '' SUCCESS: '' @ ''L1Diff'' @ '' = '' @ fmt_G env L1 @ ''\<newline>''
         else color @ '' FAILED: '' @ ''L1Diff'' @ '' = '' @ fmt_G env L2 @ ''\<newline>'',
         if KS_success
         then color @ '' SUCCESS: '' @ ''K-S'' @ '' = '' @ fmt_G env KS @ ''\<newline>''
         else color @ '' FAILED: '' @ ''K-S'' @ '' = '' @ fmt_G env KS @ ''\<newline>''])"

definition missing_quantity_msg :: "string \<Rightarrow> string \<Rightarrow> string" where
  "missing_quantity_msg b1 b2 =
     ''galaxy catalog does not have `'' @ b1 @ ''` and/or `'' @ b2
       @ ''` quantity, skipping the rest of the validation test.\<newline>''"

text \<open>
  The names of the reference files: line 173,
  \<^verbatim>\<open>self._data_name+'_'+color+'_z_%1.3f_%1.3f_pdf.txt'%(self.zlo_obs, self.zhi_obs)\<close>,
  and line 265, which adds \<^verbatim>\<open>_bins_%1.2f_%1.2f_%d\<close> of the three bin arguments.
\<close>

definition cdf_filename :: "collaborators \<Rightarrow> test_config \<Rightarrow> string \<Rightarrow> string" where
  "cdf_filename env cfg color =
     data_name cfg @ ''_'' @ color @ ''_z_'' @ fmt_1_3f env (zlo_obs cfg) @ ''_''
       @ fmt_1_3f env (zhi_obs cfg) @ ''_pdf.txt''"

definition pdf_filename ::
  "collaborators \<Rightarrow> test_config \<Rightarrow> string \<Rightarrow> real \<times> real \<times> int \<Rightarrow> string" where
  "pdf_filename env cfg color bin_args =
     data_name cfg @ ''_'' @ color @ ''_z_'' @ fmt_1_3f env (zlo_obs cfg) @ ''_''
       @ fmt_1_3f env (zhi_obs cfg) @ ''_bins_'' @ fmt_1_2f env (fst bin_args) @ ''_''
       @ fmt_1_2f env (fst (snd bin_args)) @ ''_'' @ fmt_d env (snd (snd bin_args))
       @ ''.txt''"

text \<open>
  Lines 261-283, the optional PDF pass of one colour. The result is the state and, when
  the run returns from inside the loop, the value it returns.
\<close>

definition pdf_pass ::
  "collaborators \<Rightarrow> test_config \<Rightarrow> catalog \<Rightarrow> nat \<Rightarrow> string \<Rightarrow> run_state
     \<Rightarrow> error + (run_state \<times> test_result option)" where
  "pdf_pass env cfg cat index color st =
     (case color_bin_args cfg of
        None \<Rightarrow> Inl AttributeError
      | Some args \<Rightarrow>
          if length args \<le> index then Inl IndexError
          else
            (let bin_args = args ! index;
                 filename = pdf_filename env cfg color bin_args
             in ebind (load_validation_data env filename) (\<lambda>(obinctr, ohist).
                ebind (color_distribution cfg cat (band1 st) (band2 st) bin_args (log_file st))
                  (\<lambda>(lg, mbinctr, mhist).
                     case mbinctr of
                       None \<Rightarrow> Inr (st\<lparr>log_file := lg\<rparr>, Some (TestResult ''SKIPPED'' []))
                     | Some mb \<Rightarrow> Inr (st\<lparr>log_file := lg, no_pdf_q := False\<rparr>, None)))))"

text \<open>
  Lines 166-283, the body of the loop for the colour at \<open>index\<close>. \<open>None\<close> in the second
  component stands for reaching the end of the body or \<^verbatim>\<open>continue\<close>. The reads
  \<^verbatim>\<open>color[0]\<close> and \<^verbatim>\<open>color[2]\<close> raise IndexError on a colour that is too short, the
  lookups in \<open>translate\<close> raise KeyError, in the order of lines 167-168.
\<close>

definition color_step ::
  "collaborators \<Rightarrow> test_config \<Rightarrow> catalog \<Rightarrow> nat \<Rightarrow> run_state
     \<Rightarrow> error + (run_state \<times> test_result option)" where
  "color_step env cfg cat index st =
     (if length (colors cfg) \<le> index then Inl IndexError
      else
        (let color = colors cfg ! index
         in if length color < 1 then Inl IndexError
            else
              (case translate cfg [color ! 0] of
                 None \<Rightarrow> Inl KeyError
               | Some b1 \<Rightarrow>
              if length color < 3 then Inl IndexError
              else
              (case translate cfg [color ! 2] of
                 None \<Rightarrow> Inl KeyError
               | Some b2 \<Rightarrow>
                 (let st1 = st\<lparr>band1 := b1, band2 := b2\<rparr>;
                      filename = cdf_filename env cfg color
                  in ebind (load_validation_data env filename) (\<lambda>(obinctr, ohist).
                     ebind (build_cdf ohist) (\<lambda>ocdf.
                       let st2 = st1\<lparr>validation_data := Some (obinctr, ohist)\<rparr>
                       in if \<not> (band1 st2 \<in> quantities cat \<and> band2 st2 \<in> quantities cat)
                          then Inr (st2\<lparr>log_file := log_file st2 @ [missing_quantity_msg b1 b2]\<rparr>,
                                    None)
                          else
                            ebind (color_distribution cfg cat (band1 st2) (band2 st2)
                                     (- 1, 4, 2000) (log_file st2))
                              (\<lambda>(lg, mbinctr, mhist).
                                 let st3 = st2\<lparr>log_file := lg\<rparr>
                                 in case mbinctr of
                                      None \<Rightarrow> Inr (st3, Some (TestResult ''SKIPPED'' []))
                                    | Some mb \<Rightarrow>
                                        (case mhist of
                                           None \<Rightarrow> Inl TypeError
                                         | Some mh \<Rightarrow>
                                             ebind (build_cdf mh) (\<lambda>mcdf.
                                               let st4 = st3\<lparr>no_cdf_q := False\<rparr>;
                                                   stats = scaled_statistics env mb mcdf obinctr ocdf;
                                                   st5 = st4\<lparr>summary_file :=
                                                     summary_file st4 @ summary_lines env color stats\<rparr>
                                               in if plot_pdf_q cfg
                                                  then pdf_pass env cfg cat index color st5
                                                  else Inr (st5, None)))))))))))"

text \<open>
  The loop over \<^verbatim>\<open>range(len(self.colors))\<close>, for the indices still to do. \<open>Some res\<close> in
  the second component is a \<^verbatim>\<open>return\<close> from inside the loop, \<open>None\<close> the normal end of it.
\<close>

fun color_steps ::
  "collaborators \<Rightarrow> test_config \<Rightarrow> catalog \<Rightarrow> nat list \<Rightarrow> run_state
     \<Rightarrow> error + (run_state \<times> test_result option)" where
  "color_steps env cfg cat [] st = Inr (st, None)"
| "color_steps env cfg cat (index # rest) st =
     (case color_step env cfg cat index st of
        Inl e \<Rightarrow> Inl e
      | Inr (st', Some res) \<Rightarrow> Inr (st', Some res)
      | Inr (st', None) \<Rightarrow> color_steps env cfg cat rest st')"

text \<open>
  Lines 285-295, after the loop: a \<^verbatim>\<open>return\<close> from inside the loop has already ended
  the run; otherwise the run returns
  \<^verbatim>\<open>TestResult('PASSED' if not no_cdf_q else 'FAILED', msg)\<close> with the empty message.
\<close>

definition end_of_run ::
  "error + (run_state \<times> test_result option) \<Rightarrow> error + (run_state \<times> test_result)" where
  "end_of_run r =
     (case r of
        Inl e \<Rightarrow> Inl e
      | Inr (st', Some res) \<Rightarrow> Inr (st', res)
      | Inr (st', None) \<Rightarrow>
          Inr (st', TestResult (if \<not> no_cdf_q st' then ''PASSED'' else ''FAILED'') []))"

text \<open>The whole method: the two flags are set, the loop runs over all colours.\<close>

definition run_validation_test ::
  "collaborators \<Rightarrow> test_config \<Rightarrow> catalog \<Rightarrow> run_state
     \<Rightarrow> error + (run_state \<times> test_result)" where
  "run_validation_test env cfg cat st =
     end_of_run (color_steps env cfg cat [0..<length (colors cfg)]
                   (st\<lparr>no_cdf_q := True, no_pdf_q := True\<rparr>))"

section \<open>Notions used in the statements\<close>

text \<open>An array has length \<open>n\<close> or is broadcast to it from length 1.\<close>

definition bc :: "nat \<Rightarrow> 'a list \<Rightarrow> bool" where
  "bc n xs = (length xs = n \<or> length xs = 1)"

text \<open>
  The colour at \<open>index\<close> produces a catalog histogram in the CDF pass: both of its bands
  are translated and declared by the catalog, and \<open>color_distribution\<close> with the bins of
  the CDF pass returns a pair of arrays.
\<close>

definition cdf_histogram_produced :: "test_config \<Rightarrow> catalog \<Rightarrow> nat \<Rightarrow> bool" where
  "cdf_histogram_produced cfg cat index =
     (case translate cfg [colors cfg ! index ! 0] of
        None \<Rightarrow> False
      | Some b1 \<Rightarrow>
          (case translate cfg [colors cfg ! index ! 2] of
             None \<Rightarrow> False
           | Some b2 \<Rightarrow>
               b1 \<in> quantities cat \<and> b2 \<in> quantities cat
               \<and> (case color_distribution cfg cat b1 b2 (- 1, 4, 2000) [] of
                     Inr (lg, Some mb, mh) \<Rightarrow> True
                   | _ \<Rightarrow> False)))"

text \<open>
  The colour at \<open>index\<close> signals a no-data condition: its bands are translated and
  declared by the catalog, so that \<open>color_distribution\<close> is called for it, and there the
  first magnitude array is empty or the mask is built with no true entry. Both guards of
  \<open>color_distribution\<close> come before the bins are used, so the condition is the same in
  the CDF pass and in the PDF pass.
\<close>

definition no_data_signalled :: "test_config \<Rightarrow> catalog \<Rightarrow> nat \<Rightarrow> bool" where
  "no_data_signalled cfg cat index =
     (case translate cfg [colors cfg ! index ! 0] of
        None \<Rightarrow> False
      | Some b1 \<Rightarrow>
          (case translate cfg [colors cfg ! index ! 2] of
             None \<Rightarrow> False
           | Some b2 \<Rightarrow>
               b1 \<in> quantities cat \<and> b2 \<in> quantities cat
               \<and> (get_quantities cat b1 (zlo_mock cfg, zhi_mock cfg) = []
                    \<or> (case magnitude_mask cfg cat
                                (get_quantities cat b1 (zlo_mock cfg, zhi_mock cfg))
                                (get_quantities cat b2 (zlo_mock cfg, zhi_mock cfg)) of
                          Inl e \<Rightarrow> False
                        | Inr msk \<Rightarrow> np_sum_bool msk = 0))))"

text \<open>
  Inputs on which the body of the loop raises nothing for the colour at \<open>index\<close>: the
  colour has its three characters and both bands are translated; its reference file
  loads into two rows with a non-empty histogram; and, when the catalog declares both
  bands, the magnitude arrays can be masked and, with PDF plotting on, the colour has
  bin arguments \<open>(lo, hi, num)\<close> with \<open>lo \<le> hi\<close> and \<open>1 \<le> num\<close> and its second
  reference file loads.
\<close>

definition color_inputs_ok ::
  "collaborators \<Rightarrow> test_config \<Rightarrow> catalog \<Rightarrow> nat \<Rightarrow> bool" where
  "color_inputs_ok env cfg cat index =
     (3 \<le> length (colors cfg ! index)
      \<and> (case translate cfg [colors cfg ! index ! 0] of
            None \<Rightarrow> False
          | Some b1 \<Rightarrow>
              (case translate cfg [colors cfg ! index ! 2] of
                 None \<Rightarrow> False
               | Some b2 \<Rightarrow>
                   (case load_validation_data env (cdf_filename env cfg (colors cfg ! index)) of
                      Inl e \<Rightarrow> False
                    | Inr (obinctr, ohist) \<Rightarrow> ohist \<noteq> [])
                   \<and> (b1 \<in> quantities cat \<and> b2 \<in> quantities cat \<longrightarrow>
                        (case quantity_filter cfg cat
                                (get_quantities cat b1 (zlo_mock cfg, zhi_mock cfg))
                                (get_quantities cat b2 (zlo_mock cfg, zhi_mock cfg)) of
                           Inl e \<Rightarrow> False
                         | Inr res \<Rightarrow> True)
                        \<and> (plot_pdf_q cfg \<longrightarrow>
                             (case color_bin_args cfg of
                                None \<Rightarrow> False
                              | Some args \<Rightarrow>
                                  index < length args
                                  \<and> fst (args ! index) \<le> fst (snd (args ! index))
                                  \<and> 1 \<le> snd (snd (args ! index))
                                  \<and> (case load_validation_data env
                                               (pdf_filename env cfg (colors cfg ! index)
                                                  (args ! index)) of
                                        Inl e \<Rightarrow> False
                                      | Inr res \<Rightarrow> True)))))))"

section \<open>Concrete inputs\<close>

text \<open>
  One colour, \<open>g-r\<close>, no limiting band, PDF plotting off; the optional bins are
  \<open>(-1, 4, 5)\<close>.
\<close>

definition scenario_config :: test_config where
  "scenario_config =
     \<lparr>colors = [''g-r''], color_bin_args = Some [(- 1, 4, 5)],
      translate = [''g'' \<mapsto> ''mag_g'', ''r'' \<mapsto> ''mag_r''],
      limiting_band = None, limiting_mag = None,
      zlo_mock = 0, zhi_mock = 1, zlo_obs = 0, zhi_obs = 1,
      data_name = ''SDSS'', plot_pdf_q = False\<rparr>"

text \<open>
  Five galaxies with \<open>mag1 = [1, 2, 3, 50, -1]\<close> and \<open>mag2 = [0.5, 1, 2, 0.4, 0.2]\<close>: the
  mask keeps the first three, whose colours are \<open>0.5, 1, 1\<close>.
\<close>

definition scenario_catalog :: catalog where
  "scenario_catalog =
     \<lparr>quantities = {''mag_g'', ''mag_r''},
      get_quantities = (\<lambda>name z.
         if name = ''mag_g'' then [Fin 1, Fin 2, Fin 3, Fin 50, Fin (- 1)]
         else [Fin (1 / 2), Fin 1, Fin 2, Fin (2 / 5), Fin (1 / 5)])\<rparr>"

text \<open>One galaxy with valid magnitudes 49 and 1, whose colour 48 lies outside the bins.\<close>

definition red_catalog :: catalog where
  "red_catalog =
     \<lparr>quantities = {''mag_g'', ''mag_r''},
      get_quantities = (\<lambda>name z. if name = ''mag_g'' then [Fin 49] else [Fin 1])\<rparr>"

text \<open>
  Collaborators for the runs below: every reference file holds two bins; \<open>L2Diff\<close> returns
  1 and success, \<open>L1Diff\<close> returns 3 and failure, \<open>KS_test\<close> returns 5 and success; the
  conversion \<^verbatim>\<open>%G\<close> is the parameter \<open>g\<close>.
\<close>

definition scenario_env :: "(npfloat \<Rightarrow> string) \<Rightarrow> collaborators" where
  "scenario_env g =
     \<lparr>loadtxt = (\<lambda>filename. Inr [[Fin 0, Fin 1], [Fin (1 / 2), Fin (1 / 2)]]),
      L2Diff = (\<lambda>d1 d2. (Fin 1, True)),
      L1Diff = (\<lambda>d1 d2. (Fin 3, False)),
      KS_test = (\<lambda>d1 d2. (Fin 5, True)),
      fmt_G = g,
      fmt_1_3f = (\<lambda>x. ''0.000''),
      fmt_1_2f = (\<lambda>x. ''0.00''),
      fmt_d = (\<lambda>n. ''0'')\<rparr>"

definition fresh_state :: run_state where
  "fresh_state =
     \<lparr>band1 = [], band2 = [], validation_data = None, log_file = [], summary_file = [],
      no_cdf_q = True, no_pdf_q = True\<rparr>"

text \<open>Three colours, \<open>u-g\<close>, \<open>g-r\<close> and \<open>r-i\<close>, PDF plotting off.\<close>

definition three_color_config :: test_config where
  "three_color_config =
     \<lparr>colors = [''u-g'', ''g-r'', ''r-i''], color_bin_args = None,
      translate = [''u'' \<mapsto> ''mag_u'', ''g'' \<mapsto> ''mag_g'', ''r'' \<mapsto> ''mag_r'',
                   ''i'' \<mapsto> ''mag_i''],
      limiting_band = None, limiting_mag = None,
      zlo_mock = 0, zhi_mock = 1, zlo_obs = 0, zhi_obs = 1,
      data_name = ''SDSS'', plot_pdf_q = False\<rparr>"

text \<open>A catalog that declares no quantity at all.\<close>

definition bare_catalog :: catalog where
  "bare_catalog = \<lparr>quantities = {}, get_quantities = (\<lambda>name z. [])\<rparr>"

text \<open>
  A catalog that declares \<open>mag_g\<close>, \<open>mag_r\<close> and \<open>mag_i\<close> but not \<open>mag_u\<close>, with two
  galaxies whose magnitudes are all 0.
\<close>

definition zero_catalog :: catalog where
  "zero_catalog =
     \<lparr>quantities = {''mag_g'', ''mag_r'', ''mag_i''},
      get_quantities = (\<lambda>name z. [Fin 0, Fin 0])\<rparr>"

text \<open>The configuration of the scenario with PDF plotting on.\<close>

definition pdf_config :: test_config where
  "pdf_config = scenario_config\<lparr>plot_pdf_q := True\<rparr>"

section \<open>Properties of the cumulative distribution\<close>

lemma cdf_loop_inv:
  assumes "length c0 = n" and "k \<le> n" and "0 < n"
  shows "length (foldl (cdf_step h) c0 [1..<k]) = n
       \<and> foldl (cdf_step h) c0 [1..<k] ! 0 = c0 ! 0
       \<and> (\<forall>i. 1 \<le> i \<and> i < k \<longrightarrow>
            foldl (cdf_step h) c0 [1..<k] ! i
              = fl_add (foldl (cdf_step h) c0 [1..<k] ! (i - 1)) (h ! i))"
  using assms(2)
proof (induction k)
  case 0
  then show ?case using assms(1) by simp
next
  case (Suc k)
  show ?case
  proof (cases "k = 0")
    case True
    then show ?thesis using assms(1) by simp
  next
    case False
    define c where "c = foldl (cdf_step h) c0 [1..<k]"
    from Suc have ih1: "length c = n" and ih2: "c ! 0 = c0 ! 0"
      and ih3: "\<And>i. 1 \<le> i \<Longrightarrow> i < k \<Longrightarrow> c ! i = fl_add (c ! (i - 1)) (h ! i)"
      unfolding c_def by simp_all
    from False have upt: "[1..<Suc k] = [1..<k] @ [k]" by simp
    have step: "foldl (cdf_step h) c0 [1..<Suc k] = c[k := fl_add (c ! (k - 1)) (h ! k)]"
      unfolding upt c_def by (simp add: cdf_step_def)
    from Suc.prems have kn: "k < n" by simp
    have a: "length (c[k := fl_add (c ! (k - 1)) (h ! k)]) = n"
      using ih1 by simp
    have b: "c[k := fl_add (c ! (k - 1)) (h ! k)] ! 0 = c0 ! 0"
      using ih2 False by simp
    have d: "c[k := fl_add (c ! (k - 1)) (h ! k)] ! i
               = fl_add (c[k := fl_add (c ! (k - 1)) (h ! k)] ! (i - 1)) (h ! i)"
      if "1 \<le> i" "i < Suc k" for i
    proof (cases "i = k")
      case True
      then show ?thesis using kn ih1 that by simp
    next
      case ik: False
      with that have "i < k" by simp
      moreover from this have "i - 1 \<noteq> k" by simp
      ultimately show ?thesis using ih3[of i] that ik by simp
    qed
    show ?thesis
      unfolding step using a b d by blast
  qed
qed

lemma build_cdf_returns:
  assumes "h \<noteq> []"
  shows "\<exists>cdf. build_cdf h = Inr cdf \<and> length cdf = length h"
proof -
  define c0 where "c0 = (replicate (length h) (Fin 0))[0 := h ! 0]"
  have len0: "length c0 = length h" by (simp add: c0_def)
  from assms have pos: "0 < length h" by simp
  have eq: "build_cdf h = Inr (foldl (cdf_step h) c0 [1..<length h])"
    using assms by (simp add: build_cdf_def c0_def)
  from cdf_loop_inv[OF len0 order_refl pos, of h]
  show ?thesis unfolding eq by simp
qed

text \<open>
  C8. For a histogram \<open>h\<close> of length \<open>N \<ge> 1\<close> the CDF is built without error, has
  length \<open>N\<close>, starts with \<open>h[0]\<close>, and each later entry is the previous entry plus
  the histogram's entry at that position: a plain prefix sum of the input as given.
\<close>

theorem build_cdf_prefix_sum:
  assumes "1 \<le> length h"
  shows "\<exists>cdf. build_cdf h = Inr cdf \<and> length cdf = length h \<and> cdf ! 0 = h ! 0
           \<and> (\<forall>i. 1 \<le> i \<and> i < length h \<longrightarrow> cdf ! i = fl_add (cdf ! (i - 1)) (h ! i))"
proof -
  define c0 where "c0 = (replicate (length h) (Fin 0))[0 := h ! 0]"
  from assms have ne: "h \<noteq> []" by (cases h) simp_all
  have len0: "length c0 = length h" by (simp add: c0_def)
  from ne have pos: "0 < length h" by simp
  have c00: "c0 ! 0 = h ! 0" using pos by (simp add: c0_def)
  have eq: "build_cdf h = Inr (foldl (cdf_step h) c0 [1..<length h])"
    using ne by (simp add: build_cdf_def c0_def)
  from cdf_loop_inv[OF len0 order_refl pos, of h] c00
  show ?thesis unfolding eq by simp
qed

theorem build_cdf_prefix_sum_witness:
  "1 \<le> length [Fin 1, Fin 2, Fin 4]
   \<and> build_cdf [Fin 1, Fin 2, Fin 4] = Inr [Fin 1, Fin 3, Fin 7]"
  using build_cdf_prefix_sum[of "[Fin 1, Fin 2, Fin 4]"]
  by (simp add: build_cdf_def cdf_step_def upt_conv_Cons)


section \<open>Facts about the array primitives\<close>

lemma ebind_Inl [simp]: "ebind (Inl e) f = Inl e"
  by (simp add: ebind_def)

lemma ebind_Inr [simp]: "ebind (Inr x) f = f x"
  by (simp add: ebind_def)

lemma ebind_eq_Inr: "ebind m f = Inr y \<longleftrightarrow> (\<exists>x. m = Inr x \<and> f x = Inr y)"
  by (cases m) simp_all

lemma bget_map: "bc n xs \<Longrightarrow> i < n \<Longrightarrow> bget (map g xs) i = g (bget xs i)"
  by (auto simp: bc_def bget_def)

lemma bc_map [simp]: "bc n (map g xs) = bc n xs"
  by (simp add: bc_def)

lemma np_binop_bc:
  assumes "np_binop f xs ys = Inr zs" and "bc n zs" and "i < n"
  shows "bc n xs \<and> bc n ys \<and> bget zs i = f (bget xs i) (bget ys i)"
proof -
  consider (eq) "length xs = length ys" "zs = map2 f xs ys"
    | (l) "length xs \<noteq> length ys" "length xs = 1" "zs = map (\<lambda>y. f (xs ! 0) y) ys"
    | (r) "length xs \<noteq> length ys" "length xs \<noteq> 1" "length ys = 1" "zs = map (\<lambda>x. f x (ys ! 0)) xs"
    using assms(1) by (auto simp: np_binop_def split: if_splits)
  then show ?thesis
  proof cases
    case eq
    then show ?thesis using assms(2,3) by (auto simp: bc_def bget_def)
  next
    case l
    then show ?thesis using assms(2,3) by (auto simp: bc_def bget_def)
  next
    case r
    then show ?thesis using assms(2,3) by (auto simp: bc_def bget_def)
  qed
qed

lemma np_and_bc:
  assumes "np_and a b = Inr m" and "bc n m" and "i < n"
  shows "bc n a \<and> bc n b \<and> (bget m i \<longleftrightarrow> bget a i \<and> bget b i)"
  using np_binop_bc[OF assms(1)[unfolded np_and_def] assms(2,3)] by simp

lemma validity_mask_bc:
  assumes "validity_mask mag1 mag2 m0 = Inr msk" and "bc n msk" and "i < n"
  shows "bc n m0 \<and> bc n mag1 \<and> bc n mag2
       \<and> (bget msk i \<longleftrightarrow> bget m0 i \<and> fl_lt (bget mag1 i) (Fin 50)
              \<and> fl_lt (Fin 0) (bget mag2 i) \<and> fl_lt (bget mag2 i) (Fin 50))"
proof -
  from assms(1) obtain ma mb where
    a: "np_and m0 (map (\<lambda>x. fl_lt x (Fin 50)) mag1) = Inr ma" and
    b: "np_and ma (map (\<lambda>x. fl_lt (Fin 0) x) mag2) = Inr mb" and
    c: "np_and mb (map (\<lambda>x. fl_lt x (Fin 50)) mag2) = Inr msk"
    unfolding validity_mask_def ebind_eq_Inr by blast
  from np_and_bc[OF c assms(2,3)]
  have c': "bc n mb" "bc n mag2" "bget msk i \<longleftrightarrow> bget mb i \<and> bget (map (\<lambda>x. fl_lt x (Fin 50)) mag2) i"
    by simp_all
  from np_and_bc[OF b c'(1) assms(3)]
  have b': "bc n ma" "bget mb i \<longleftrightarrow> bget ma i \<and> bget (map (\<lambda>x. fl_lt (Fin 0) x) mag2) i"
    by simp_all
  from np_and_bc[OF a b'(1) assms(3)]
  have a': "bc n m0" "bc n mag1" "bget ma i \<longleftrightarrow> bget m0 i \<and> bget (map (\<lambda>x. fl_lt x (Fin 50)) mag1) i"
    by simp_all
  show ?thesis
    using a' b' c' by (simp add: bget_map[OF c'(2) assms(3)] bget_map[OF a'(2) assms(3)])
qed

lemma magnitude_mask_bc:
  assumes "magnitude_mask cfg cat mag1 mag2 = Inr msk" and "i < length msk" and "msk ! i"
  shows "bc (length msk) mag1 \<and> bc (length msk) mag2
       \<and> fl_lt (Fin 0) (bget mag1 i) \<and> fl_lt (bget mag1 i) (Fin 50)
       \<and> fl_lt (Fin 0) (bget mag2 i) \<and> fl_lt (bget mag2 i) (Fin 50)"
proof -
  have bcm: "bc (length msk) msk" by (simp add: bc_def)
  have bg: "bget msk i" using assms(2,3) by (auto simp: bget_def)
  show ?thesis
  proof (cases "limiting_band cfg")
    case None
    with assms(1) have v: "validity_mask mag1 mag2 (map (\<lambda>x. fl_lt (Fin 0) x) mag1) = Inr msk"
      by (simp add: magnitude_mask_def)
    from validity_mask_bc[OF v bcm assms(2)] bg
    have v': "bc (length msk) mag1" "bc (length msk) mag2"
      "bget (map (\<lambda>x. fl_lt (Fin 0) x) mag1) i"
      "fl_lt (bget mag1 i) (Fin 50)" "fl_lt (Fin 0) (bget mag2 i)" "fl_lt (bget mag2 i) (Fin 50)"
      by simp_all
    then show ?thesis by (simp add: bget_map[OF v'(1) assms(2)])
  next
    case (Some lb)
    with assms(1) obtain name lm m0 where
      n: "translate cfg lb = Some name" and l: "limiting_mag cfg = Some lm" and
      m0: "np_and (map (\<lambda>x. fl_lt x (Fin lm)) (get_quantities cat name (zlo_mock cfg, zhi_mock cfg)))
             (map (\<lambda>x. fl_lt (Fin 0) x) mag1) = Inr m0" and
      v: "validity_mask mag1 mag2 m0 = Inr msk"
      by (auto simp: magnitude_mask_def ebind_eq_Inr Let_def split: option.splits)
    from validity_mask_bc[OF v bcm assms(2)] bg
    have v': "bc (length msk) m0" "bc (length msk) mag1" "bc (length msk) mag2" "bget m0 i"
      "fl_lt (bget mag1 i) (Fin 50)" "fl_lt (Fin 0) (bget mag2 i)" "fl_lt (bget mag2 i) (Fin 50)"
      by simp_all
    from np_and_bc[OF m0 v'(1) assms(2)] v'(4)
    have "bget (map (\<lambda>x. fl_lt (Fin 0) x) mag1) i" by simp
    then show ?thesis using v' by (simp add: bget_map[OF v'(2) assms(2)])
  qed
qed

lemma magnitude_mask_limit:
  assumes "magnitude_mask cfg cat mag1 mag2 = Inr msk" and "limiting_band cfg = Some lb"
  shows "\<exists>name lm. translate cfg lb = Some name \<and> limiting_mag cfg = Some lm
           \<and> (\<forall>i<length msk. msk ! i \<longrightarrow>
                 fl_lt (bget (get_quantities cat name (zlo_mock cfg, zhi_mock cfg)) i) (Fin lm))"
proof -
  have bcm: "bc (length msk) msk" by (simp add: bc_def)
  from assms obtain name lm m0 where
    n: "translate cfg lb = Some name" and l: "limiting_mag cfg = Some lm" and
    m0: "np_and (map (\<lambda>x. fl_lt x (Fin lm)) (get_quantities cat name (zlo_mock cfg, zhi_mock cfg)))
           (map (\<lambda>x. fl_lt (Fin 0) x) mag1) = Inr m0" and
    v: "validity_mask mag1 mag2 m0 = Inr msk"
    by (auto simp: magnitude_mask_def ebind_eq_Inr Let_def split: option.splits)
  have "fl_lt (bget (get_quantities cat name (zlo_mock cfg, zhi_mock cfg)) i) (Fin lm)"
    if i: "i < length msk" and t: "msk ! i" for i
  proof -
    have bg: "bget msk i" using i t by (auto simp: bget_def)
    from validity_mask_bc[OF v bcm i] bg have b0: "bc (length msk) m0" "bget m0 i" by simp_all
    from np_and_bc[OF m0 b0(1) i] b0(2)
    have "bc (length msk) (get_quantities cat name (zlo_mock cfg, zhi_mock cfg))"
      "bget (map (\<lambda>x. fl_lt x (Fin lm)) (get_quantities cat name (zlo_mock cfg, zhi_mock cfg))) i"
      by simp_all
    then show ?thesis by (simp add: bget_map[OF _ i])
  qed
  with n l show ?thesis by blast
qed

lemma count_true_positions:
  "length (filter (\<lambda>i. msk ! i) [0..<length msk]) = np_sum_bool msk"
proof (induction msk rule: rev_induct)
  case Nil
  then show ?case by (simp add: np_sum_bool_def)
next
  case (snoc b bs)
  have "filter (\<lambda>i. (bs @ [b]) ! i) [0..<length bs] = filter (\<lambda>i. bs ! i) [0..<length bs]"
    by (rule filter_cong) (auto simp: nth_append)
  with snoc show ?case by (simp add: np_sum_bool_def)
qed

lemma np_bool_index_Inr:
  assumes "np_bool_index xs msk = Inr ys"
  shows "ys = map (\<lambda>i. xs ! i) (filter (\<lambda>i. msk ! i) [0..<length msk])"
    and "length ys = np_sum_bool msk"
    and "\<forall>i<length msk. msk ! i \<longrightarrow> i < length xs"
proof -
  from assms show a: "ys = map (\<lambda>i. xs ! i) (filter (\<lambda>i. msk ! i) [0..<length msk])"
    by (auto simp: np_bool_index_def Let_def split: if_splits)
  show "length ys = np_sum_bool msk"
    unfolding a by (simp add: count_true_positions)
  from assms show "\<forall>i<length msk. msk ! i \<longrightarrow> i < length xs"
    by (auto simp: np_bool_index_def Let_def list_all_iff split: if_splits)
qed

lemma quantity_filter_Inr:
  assumes "quantity_filter cfg cat mag1 mag2 = Inr (m1, m2, msk)"
  shows "magnitude_mask cfg cat mag1 mag2 = Inr msk"
    and "np_bool_index mag1 msk = Inr m1" and "np_bool_index mag2 msk = Inr m2"
  using assms by (auto simp: quantity_filter_def ebind_eq_Inr)

lemma retained_in_range:
  assumes mm: "magnitude_mask cfg cat mag1 mag2 = Inr msk"
    and i: "i < length msk" and t: "msk ! i" and i1: "i < length mag1" and i2: "i < length mag2"
  shows "fl_lt (Fin 0) (mag1 ! i) \<and> fl_lt (mag1 ! i) (Fin 50)
       \<and> fl_lt (Fin 0) (mag2 ! i) \<and> fl_lt (mag2 ! i) (Fin 50)"
proof -
  from magnitude_mask_bc[OF mm i t]
  have b: "bc (length msk) mag1" "bc (length msk) mag2"
    and r: "fl_lt (Fin 0) (bget mag1 i)" "fl_lt (bget mag1 i) (Fin 50)"
           "fl_lt (Fin 0) (bget mag2 i)" "fl_lt (bget mag2 i) (Fin 50)"
    by simp_all
  have "bget mag1 i = mag1 ! i" using i1 by (auto simp: bget_def)
  moreover have "bget mag2 i = mag2 ! i" using i2 by (auto simp: bget_def)
  ultimately show ?thesis using r by simp
qed

lemma np_bool_index_no_true:
  assumes "np_sum_bool msk = 0"
  shows "np_bool_index xs msk = Inr []"
proof -
  from assms count_true_positions[of msk]
  have "filter (\<lambda>i. msk ! i) [0..<length msk] = []" by simp
  then show ?thesis by (simp add: np_bool_index_def)
qed

lemma quantity_filter_no_true:
  assumes "magnitude_mask cfg cat mag1 mag2 = Inr msk" and "np_sum_bool msk = 0"
  shows "quantity_filter cfg cat mag1 mag2 = Inr ([], [], msk)"
  by (simp add: quantity_filter_def assms(1) np_bool_index_no_true[OF assms(2)])


section \<open>The quantity filter\<close>

text \<open>
  C7. When the quantity filter returns, one mask has been applied to \<open>mag1\<close> and to
  \<open>mag2\<close>: both outputs are the elements at the true positions of the mask, so both
  have as many elements as the mask has true entries; every retained magnitude lies
  strictly between 0 and 50; and with a limiting band every true position of the mask
  has a limiting-band magnitude below the limiting magnitude.
\<close>

theorem quantity_filter_mask:
  assumes "quantity_filter cfg cat mag1 mag2 = Inr (m1, m2, msk)"
  shows "length m1 = np_sum_bool msk \<and> length m2 = np_sum_bool msk
     \<and> m1 = map (\<lambda>i. mag1 ! i) (filter (\<lambda>i. msk ! i) [0..<length msk])
     \<and> m2 = map (\<lambda>i. mag2 ! i) (filter (\<lambda>i. msk ! i) [0..<length msk])
     \<and> (\<forall>x\<in>set m1. fl_lt (Fin 0) x \<and> fl_lt x (Fin 50))
     \<and> (\<forall>x\<in>set m2. fl_lt (Fin 0) x \<and> fl_lt x (Fin 50))
     \<and> (\<forall>lb. limiting_band cfg = Some lb \<longrightarrow>
          (\<exists>name lm. translate cfg lb = Some name \<and> limiting_mag cfg = Some lm
             \<and> (\<forall>i<length msk. msk ! i \<longrightarrow>
                   fl_lt (bget (get_quantities cat name (zlo_mock cfg, zhi_mock cfg)) i) (Fin lm))))"
proof -
  note q = quantity_filter_Inr[OF assms]
  note x1 = np_bool_index_Inr[OF q(2)]
  note x2 = np_bool_index_Inr[OF q(3)]
  have r: "fl_lt (Fin 0) (mag1 ! i) \<and> fl_lt (mag1 ! i) (Fin 50)
         \<and> fl_lt (Fin 0) (mag2 ! i) \<and> fl_lt (mag2 ! i) (Fin 50)"
    if "i < length msk" "msk ! i" for i
    using retained_in_range[OF q(1) that] x1(3) x2(3) that by blast
  have s1: "\<forall>x\<in>set m1. fl_lt (Fin 0) x \<and> fl_lt x (Fin 50)"
    unfolding x1(1) using r by auto
  have s2: "\<forall>x\<in>set m2. fl_lt (Fin 0) x \<and> fl_lt x (Fin 50)"
    unfolding x2(1) using r by auto
  have lim: "\<forall>lb. limiting_band cfg = Some lb \<longrightarrow>
          (\<exists>name lm. translate cfg lb = Some name \<and> limiting_mag cfg = Some lm
             \<and> (\<forall>i<length msk. msk ! i \<longrightarrow>
                   fl_lt (bget (get_quantities cat name (zlo_mock cfg, zhi_mock cfg)) i) (Fin lm)))"
    using magnitude_mask_limit[OF q(1)] by blast
  show ?thesis
    using x1(1,2) x2(1,2) s1 s2 lim by blast
qed

theorem quantity_filter_mask_witness:
  "quantity_filter (scenario_config\<lparr>limiting_band := Some ''r'', limiting_mag := Some (3 / 2)\<rparr>)
       scenario_catalog [Fin 1, Fin 2, Fin 3, Fin 50, Fin (- 1)]
       [Fin (1 / 2), Fin 1, Fin 2, Fin (2 / 5), Fin (1 / 5)]
     = Inr ([Fin 1, Fin 2], [Fin (1 / 2), Fin 1], [True, True, False, False, False])
   \<and> length [Fin 1, Fin 2 :: npfloat] = np_sum_bool [True, True, False, False, False]
   \<and> list_all (\<lambda>x. fl_lt (Fin 0) x \<and> fl_lt x (Fin 50)) [Fin 1, Fin 2]"
proof -
  have h: "quantity_filter (scenario_config\<lparr>limiting_band := Some ''r'', limiting_mag := Some (3 / 2)\<rparr>)
       scenario_catalog [Fin 1, Fin 2, Fin 3, Fin 50, Fin (- 1)]
       [Fin (1 / 2), Fin 1, Fin 2, Fin (2 / 5), Fin (1 / 5)]
     = Inr ([Fin 1, Fin 2], [Fin (1 / 2), Fin 1], [True, True, False, False, False])"
    by (simp add: quantity_filter_def magnitude_mask_def validity_mask_def np_and_def
        np_binop_def np_bool_index_def scenario_config_def scenario_catalog_def
        upt_conv_Cons Let_def)
  from quantity_filter_mask[OF h] h show ?thesis by simp
qed


section \<open>Facts about \<open>color_distribution\<close>\<close>

lemma np_linspace_length:
  assumes "np_linspace lo hi num = Inr edges"
  shows "0 \<le> num" and "length edges = nat num"
  using assms by (auto simp: np_linspace_def split: if_splits)

lemma np_linspace_returns:
  assumes "0 \<le> num"
  shows "\<exists>edges. np_linspace lo hi num = Inr edges \<and> length edges = nat num"
  using assms by (auto simp: np_linspace_def)

lemma np_linspace_increasing:
  assumes e: "np_linspace lo hi num = Inr edges" and le: "lo \<le> hi" and i: "i + 1 < length edges"
  shows "edges ! i \<le> edges ! (i + 1)"
proof -
  from e i have n1: "num \<noteq> 1" and n0: "\<not> num < 0"
    by (auto simp: np_linspace_def split: if_splits)
  with e have ed: "edges = map (\<lambda>i. lo + real i * ((hi - lo) / real_of_int (num - 1))) [0..<nat num]"
    by (simp add: np_linspace_def)
  from i ed have i1: "i + 1 < nat num" by simp
  then have pos: "0 < real_of_int (num - 1)" by simp
  with le have s: "0 \<le> (hi - lo) / real_of_int (num - 1)" by simp
  have "real i * ((hi - lo) / real_of_int (num - 1))
          \<le> real (i + 1) * ((hi - lo) / real_of_int (num - 1))"
    by (rule mult_right_mono[OF _ s]) simp
  then show ?thesis
    using i1 unfolding ed by simp
qed

lemma np_histogram_length:
  assumes "np_histogram a edges = Inr h"
  shows "length h = length edges - 1" and "edges \<noteq> []"
  using assms by (auto simp: np_histogram_def split: if_splits)

lemma np_histogram_returns:
  assumes "edges \<noteq> []" and "\<And>i. i + 1 < length edges \<Longrightarrow> edges ! i \<le> edges ! (i + 1)"
  shows "\<exists>h. np_histogram a edges = Inr h \<and> length h = length edges - 1"
proof -
  have "\<not> list_ex (\<lambda>i. edges ! (i + 1) < edges ! i) [0..<length edges - 1]"
  proof
    assume "list_ex (\<lambda>i. edges ! (i + 1) < edges ! i) [0..<length edges - 1]"
    then obtain i where i: "i < length edges - 1" and lt: "edges ! (i + 1) < edges ! i"
      by (auto simp: list_ex_iff)
    from i have "i + 1 < length edges" by simp
    from assms(2)[OF this] lt show False by simp
  qed
  with assms(1) show ?thesis by (simp add: np_histogram_def)
qed

lemma np_true_divide_length [simp]: "length (np_true_divide h t) = length h"
  by (simp add: np_true_divide_def)

lemma bin_centers_length [simp]:
  "length (map2 f (drop 1 bins) (take (length bins - 1) bins)) = length bins - 1"
  by simp

lemma np_binop_same_length:
  "length xs = length ys \<Longrightarrow> np_binop f xs ys = Inr (map2 f xs ys)"
  by (simp add: np_binop_def)

lemma color_distribution_no_galaxy:
  assumes "get_quantities cat b1 (zlo_mock cfg, zhi_mock cfg) = []"
  shows "color_distribution cfg cat b1 b2 bin_args lg
           = Inr (lg @ [''No object in the redshift range!\<newline>''], None, None)"
  using assms by (simp add: color_distribution_def)

lemma color_distribution_empty_mask:
  assumes "get_quantities cat b1 (zlo_mock cfg, zhi_mock cfg) \<noteq> []"
    and "quantity_filter cfg cat (get_quantities cat b1 (zlo_mock cfg, zhi_mock cfg))
           (get_quantities cat b2 (zlo_mock cfg, zhi_mock cfg)) = Inr (m1, m2, msk)"
    and "np_sum_bool msk = 0"
  shows "color_distribution cfg cat b1 b2 bin_args lg
           = Inr (lg @ [''No object in the magnitude range!\<newline>''], None, None)"
  using assms by (simp add: color_distribution_def)

lemma color_distribution_histogram:
  assumes ne: "get_quantities cat b1 (zlo_mock cfg, zhi_mock cfg) \<noteq> []"
    and qf: "quantity_filter cfg cat (get_quantities cat b1 (zlo_mock cfg, zhi_mock cfg))
           (get_quantities cat b2 (zlo_mock cfg, zhi_mock cfg)) = Inr (m1, m2, msk)"
    and cnt: "np_sum_bool msk \<noteq> 0"
  shows "color_distribution cfg cat b1 b2 (lo, hi, num) lg =
           ebind (np_linspace lo hi num) (\<lambda>bins.
           ebind (np_histogram (map2 fl_sub m1 m2) bins) (\<lambda>hist.
             Inr (lg,
                  Some (map2 (\<lambda>a b. Fin ((a + b) / 2)) (drop 1 bins) (take (length bins - 1) bins)),
                  Some (np_true_divide hist (sum_list hist)))))"
proof -
  note q = quantity_filter_Inr[OF qf]
  from np_bool_index_Inr(2)[OF q(2)] np_bool_index_Inr(2)[OF q(3)]
  have "length m1 = length m2" by simp
  then have sub: "np_binop fl_sub m1 m2 = Inr (map2 fl_sub m1 m2)"
    by (rule np_binop_same_length)
  show ?thesis
    using ne cnt by (simp add: color_distribution_def qf sub Let_def)
qed

lemma color_distribution_returns:
  assumes ne: "get_quantities cat b1 (zlo_mock cfg, zhi_mock cfg) \<noteq> []"
    and qf: "quantity_filter cfg cat (get_quantities cat b1 (zlo_mock cfg, zhi_mock cfg))
           (get_quantities cat b2 (zlo_mock cfg, zhi_mock cfg)) = Inr (m1, m2, msk)"
    and cnt: "np_sum_bool msk \<noteq> 0"
    and le: "lo \<le> hi" and num: "1 \<le> num"
  shows "\<exists>bs hs. color_distribution cfg cat b1 b2 (lo, hi, num) lg = Inr (lg, Some bs, Some hs)
           \<and> length bs = nat num - 1 \<and> length hs = nat num - 1"
proof -
  from num have "0 \<le> num" by simp
  from np_linspace_returns[OF this, of lo hi] obtain edges where
    e: "np_linspace lo hi num = Inr edges" and l: "length edges = nat num" by blast
  from l num have ne': "edges \<noteq> []" by auto
  from np_histogram_returns[OF ne' np_linspace_increasing[OF e le], of "map2 fl_sub m1 m2"]
  obtain h where h: "np_histogram (map2 fl_sub m1 m2) edges = Inr h"
    and hl: "length h = length edges - 1" by blast
  show ?thesis
    unfolding color_distribution_histogram[OF ne qf cnt]
    using l hl by (simp add: e h)
qed

lemma color_distribution_shape:
  assumes "color_distribution cfg cat b1 b2 (lo, hi, num) lg = Inr (lg', binctr, hist)"
  shows "(binctr = None \<and> hist = None \<and> (\<exists>msg. lg' = lg @ [msg]))
       \<or> (\<exists>bs hs. binctr = Some bs \<and> hist = Some hs \<and> lg' = lg
             \<and> length bs = nat num - 1 \<and> length hs = nat num - 1)"
proof (cases "get_quantities cat b1 (zlo_mock cfg, zhi_mock cfg) = []")
  case True
  from assms show ?thesis
    unfolding color_distribution_no_galaxy[OF True] by auto
next
  case ne: False
  from assms ne obtain m1 m2 msk where
    qf: "quantity_filter cfg cat (get_quantities cat b1 (zlo_mock cfg, zhi_mock cfg))
           (get_quantities cat b2 (zlo_mock cfg, zhi_mock cfg)) = Inr (m1, m2, msk)"
    by (cases "quantity_filter cfg cat (get_quantities cat b1 (zlo_mock cfg, zhi_mock cfg))
           (get_quantities cat b2 (zlo_mock cfg, zhi_mock cfg))")
       (auto simp: color_distribution_def)
  show ?thesis
  proof (cases "np_sum_bool msk = 0")
    case True
    from assms show ?thesis
      unfolding color_distribution_empty_mask[OF ne qf True] by auto
  next
    case cnt: False
    from assms obtain bins h where
      e: "np_linspace lo hi num = Inr bins" and
      h: "np_histogram (map2 fl_sub m1 m2) bins = Inr h" and
      r: "lg' = lg"
         "binctr = Some (map2 (\<lambda>a b. Fin ((a + b) / 2)) (drop 1 bins) (take (length bins - 1) bins))"
         "hist = Some (np_true_divide h (sum_list h))"
      unfolding color_distribution_histogram[OF ne qf cnt] ebind_eq_Inr by auto
    from np_linspace_length(2)[OF e] np_histogram_length(1)[OF h] r
    show ?thesis by simp
  qed
qed

lemma color_distribution_log:
  "color_distribution cfg cat b1 b2 bin_args lg
     = map_sum id (\<lambda>(l, r). (lg @ l, r)) (color_distribution cfg cat b1 b2 bin_args [])"
  by (auto simp: color_distribution_def ebind_def Let_def split: sum.splits prod.splits)


text \<open>
  C10. Whatever \<open>color_distribution\<close> returns is either the pair \<open>(None, None)\<close> or a pair
  of two arrays of the same length; the first component is \<open>None\<close> exactly when the
  second is.
\<close>

theorem color_distribution_pair:
  assumes "color_distribution cfg cat b1 b2 bin_args lg = Inr (lg', binctr, hist)"
  shows "(binctr = None \<longleftrightarrow> hist = None)
       \<and> ((binctr = None \<and> hist = None)
            \<or> (\<exists>bs hs. binctr = Some bs \<and> hist = Some hs \<and> length bs = length hs))"
proof -
  obtain lo hi num where b: "bin_args = (lo, hi, num)" by (cases bin_args) auto
  from color_distribution_shape[OF assms[unfolded b]] show ?thesis by auto
qed

theorem color_distribution_pair_witness:
  "color_distribution scenario_config scenario_catalog ''mag_g'' ''mag_r'' (- 1, 4, 3) []
     = Inr ([], Some [Fin (1 / 4), Fin (11 / 4)], Some [Fin 1, Fin 0])
   \<and> length [Fin (1 / 4), Fin (11 / 4)] = length [Fin 1, Fin 0 :: npfloat]"
proof -
  have h: "color_distribution scenario_config scenario_catalog ''mag_g'' ''mag_r'' (- 1, 4, 3) []
     = Inr ([], Some [Fin (1 / 4), Fin (11 / 4)], Some [Fin 1, Fin 0])"
    by (simp add: color_distribution_def scenario_config_def scenario_catalog_def
        quantity_filter_def magnitude_mask_def validity_mask_def np_and_def np_binop_def
        np_bool_index_def np_sum_bool_def np_linspace_def np_histogram_def in_bin_def
        np_true_divide_def upt_conv_Cons Let_def)
  from color_distribution_pair[OF h] h show ?thesis by simp
qed


text \<open>
  C5. The bin arguments \<open>(-1, 4, 5)\<close> give five edges, hence four bins: the histogram
  and the bin centres returned for the five galaxies of the scenario have four entries
  each, the centres being the midpoints of consecutive edges.
\<close>

theorem color_distribution_five_samples:
  "np_linspace (- 1) 4 5 = Inr [- 1, 1 / 4, 3 / 2, 11 / 4, 4]
   \<and> color_distribution scenario_config scenario_catalog ''mag_g'' ''mag_r'' (- 1, 4, 5) []
       = Inr ([], Some [Fin (- (3 / 8)), Fin (7 / 8), Fin (17 / 8), Fin (27 / 8)],
                  Some [Fin 0, Fin 1, Fin 0, Fin 0])"
  by (simp add: color_distribution_def scenario_config_def scenario_catalog_def
      quantity_filter_def magnitude_mask_def validity_mask_def np_and_def np_binop_def
      np_bool_index_def np_sum_bool_def np_linspace_def np_histogram_def in_bin_def
      np_true_divide_def upt_conv_Cons Let_def)


text \<open>
  C6. A galaxy with magnitudes 49 and 1 passes the mask (one true entry), its colour 48
  falls in no bin of \<open>(-1, 4, 5)\<close>, the total count is 0, and every entry of the
  normalised histogram is NaN.
\<close>

theorem color_distribution_all_nan:
  "quantity_filter scenario_config red_catalog [Fin 49] [Fin 1] = Inr ([Fin 49], [Fin 1], [True])
   \<and> np_sum_bool [True] = 1
   \<and> color_distribution scenario_config red_catalog ''mag_g'' ''mag_r'' (- 1, 4, 5) []
       = Inr ([], Some [Fin (- (3 / 8)), Fin (7 / 8), Fin (17 / 8), Fin (27 / 8)],
                  Some [NaN, NaN, NaN, NaN])"
  by (simp add: color_distribution_def scenario_config_def red_catalog_def
      quantity_filter_def magnitude_mask_def validity_mask_def np_and_def np_binop_def
      np_bool_index_def np_sum_bool_def np_linspace_def np_histogram_def in_bin_def
      np_true_divide_def upt_conv_Cons Let_def)


section \<open>Facts about the loop of \<open>run_validation_test\<close>\<close>

lemma color_steps_append:
  "color_steps env cfg cat (xs @ ys) st =
     (case color_steps env cfg cat xs st of
        Inl e \<Rightarrow> Inl e
      | Inr (st', Some res) \<Rightarrow> Inr (st', Some res)
      | Inr (st', None) \<Rightarrow> color_steps env cfg cat ys st')"
  by (induction xs arbitrary: st) (auto split: sum.splits option.splits)

lemma range_split:
  assumes "index < n"
  shows "[0..<n] = [0..<index] @ index # [Suc index..<n]"
  using assms by (metis le_add1 less_imp_add_positive upt_add_eq_append upt_conv_Cons plus_nat.add_0)

lemma run_from_index:
  assumes "index < length (colors cfg)"
    and "color_steps env cfg cat [0..<index] (st0\<lparr>no_cdf_q := True, no_pdf_q := True\<rparr>)
           = Inr (st, None)"
  shows "run_validation_test env cfg cat st0
           = end_of_run (color_steps env cfg cat (index # [Suc index..<length (colors cfg)]) st)"
  unfolding run_validation_test_def range_split[OF assms(1)] color_steps_append
  by (simp add: assms(2))

lemma color_step_prefix:
  assumes idx: "index < length (colors cfg)" and len: "3 \<le> length (colors cfg ! index)"
    and t1: "translate cfg [colors cfg ! index ! 0] = Some b1"
    and t2: "translate cfg [colors cfg ! index ! 2] = Some b2"
    and ld: "load_validation_data env (cdf_filename env cfg (colors cfg ! index))
               = Inr (obinctr, ohist)"
    and cdf: "build_cdf ohist = Inr ocdf"
  shows "color_step env cfg cat index st =
    (if \<not> (b1 \<in> quantities cat \<and> b2 \<in> quantities cat)
     then Inr (st\<lparr>band1 := b1, band2 := b2, validation_data := Some (obinctr, ohist),
                 log_file := log_file st @ [missing_quantity_msg b1 b2]\<rparr>, None)
     else
       ebind (color_distribution cfg cat b1 b2 (- 1, 4, 2000) (log_file st))
         (\<lambda>(lg, mbinctr, mhist).
            case mbinctr of
              None \<Rightarrow> Inr (st\<lparr>band1 := b1, band2 := b2,
                               validation_data := Some (obinctr, ohist), log_file := lg\<rparr>,
                            Some (TestResult ''SKIPPED'' []))
            | Some mb \<Rightarrow>
                (case mhist of
                   None \<Rightarrow> Inl TypeError
                 | Some mh \<Rightarrow>
                     ebind (build_cdf mh) (\<lambda>mcdf.
                       if plot_pdf_q cfg
                       then pdf_pass env cfg cat index (colors cfg ! index)
                              (st\<lparr>band1 := b1, band2 := b2,
                                  validation_data := Some (obinctr, ohist), log_file := lg,
                                  no_cdf_q := False,
                                  summary_file := summary_file st
                                    @ summary_lines env (colors cfg ! index)
                                        (scaled_statistics env mb mcdf obinctr ocdf)\<rparr>)
                       else Inr (st\<lparr>band1 := b1, band2 := b2,
                                    validation_data := Some (obinctr, ohist), log_file := lg,
                                    no_cdf_q := False,
                                    summary_file := summary_file st
                                      @ summary_lines env (colors cfg ! index)
                                          (scaled_statistics env mb mcdf obinctr ocdf)\<rparr>,
                                 None)))))"
proof -
  from idx len have g: "\<not> length (colors cfg) \<le> index" "\<not> length (colors cfg ! index) < 3"
    "colors cfg ! index \<noteq> []"
    by auto
  show ?thesis
    unfolding color_step_def Let_def
    by (simp add: g t1 t2 ld cdf cong: if_cong option.case_cong)
qed


lemma color_step_no_data:
  assumes idx: "index < length (colors cfg)" and len: "3 \<le> length (colors cfg ! index)"
    and t1: "translate cfg [colors cfg ! index ! 0] = Some b1"
    and t2: "translate cfg [colors cfg ! index ! 2] = Some b2"
    and ld: "load_validation_data env (cdf_filename env cfg (colors cfg ! index))
               = Inr (obinctr, ohist)"
    and cdf: "build_cdf ohist = Inr ocdf"
    and pres: "b1 \<in> quantities cat" "b2 \<in> quantities cat"
    and cd: "color_distribution cfg cat b1 b2 (- 1, 4, 2000) (log_file st) = Inr (lg, None, mhist)"
  shows "color_step env cfg cat index st =
     Inr (st\<lparr>band1 := b1, band2 := b2, validation_data := Some (obinctr, ohist),
            log_file := lg\<rparr>, Some (TestResult ''SKIPPED'' []))"
  unfolding color_step_prefix[OF idx len t1 t2 ld cdf] using pres by (simp add: cd)

lemma color_step_completes:
  assumes idx: "index < length (colors cfg)" and len: "3 \<le> length (colors cfg ! index)"
    and t1: "translate cfg [colors cfg ! index ! 0] = Some b1"
    and t2: "translate cfg [colors cfg ! index ! 2] = Some b2"
    and ld: "load_validation_data env (cdf_filename env cfg (colors cfg ! index))
               = Inr (obinctr, ohist)"
    and cdf: "build_cdf ohist = Inr ocdf"
    and pres: "b1 \<in> quantities cat" "b2 \<in> quantities cat"
    and cd: "color_distribution cfg cat b1 b2 (- 1, 4, 2000) (log_file st)
               = Inr (lg, Some mb, Some mh)"
    and mcdf: "build_cdf mh = Inr mcdf"
    and nopdf: "\<not> plot_pdf_q cfg"
  shows "color_step env cfg cat index st =
     Inr (st\<lparr>band1 := b1, band2 := b2, validation_data := Some (obinctr, ohist),
            log_file := lg, no_cdf_q := False,
            summary_file := summary_file st
              @ summary_lines env (colors cfg ! index)
                  (scaled_statistics env mb mcdf obinctr ocdf)\<rparr>, None)"
  unfolding color_step_prefix[OF idx len t1 t2 ld cdf] using pres nopdf by (simp add: cd mcdf)


section \<open>The run on the scenario\<close>

lemma scenario_reference:
  "load_validation_data (scenario_env g) filename = Inr ([Fin 0, Fin 1], [Fin (1 / 2), Fin (1 / 2)])"
  "build_cdf [Fin (1 / 2), Fin (1 / 2)] = Inr [Fin (1 / 2), Fin 1]"
  by (simp_all add: load_validation_data_def scenario_env_def build_cdf_def cdf_step_def
      upt_conv_Cons)

lemma scenario_filter:
  "quantity_filter scenario_config scenario_catalog
       (get_quantities scenario_catalog ''mag_g'' (zlo_mock scenario_config, zhi_mock scenario_config))
       (get_quantities scenario_catalog ''mag_r'' (zlo_mock scenario_config, zhi_mock scenario_config))
     = Inr ([Fin 1, Fin 2, Fin 3], [Fin (1 / 2), Fin 1, Fin 2], [True, True, True, False, False])"
  by (simp add: quantity_filter_def magnitude_mask_def validity_mask_def np_and_def
      np_binop_def np_bool_index_def scenario_config_def scenario_catalog_def
      upt_conv_Cons Let_def)

lemma scenario_histogram:
  "\<exists>mb mh. color_distribution scenario_config scenario_catalog ''mag_g'' ''mag_r''
               (- 1, 4, 2000) lg = Inr (lg, Some mb, Some mh)
           \<and> length mb = 1999 \<and> length mh = 1999"
proof -
  have ne: "get_quantities scenario_catalog ''mag_g''
              (zlo_mock scenario_config, zhi_mock scenario_config) \<noteq> []"
    by (simp add: scenario_catalog_def)
  have cnt: "np_sum_bool [True, True, True, False, False] \<noteq> 0"
    by (simp add: np_sum_bool_def)
  from color_distribution_returns[OF ne scenario_filter cnt, of "- 1" 4 2000 lg]
  show ?thesis by simp
qed

lemma scenario_statistics:
  "scaled_statistics (scenario_env g) mb mcdf ob ocdf
     = ((Fin (sqrt 2), True), (Fin (3 * sqrt 2), False), (Fin (5 * sqrt 2), True))"
  by (simp add: scaled_statistics_def scenario_env_def)

lemma scenario_run:
  "run_validation_test (scenario_env g) scenario_config scenario_catalog fresh_state
     = Inr (\<lparr>band1 = ''mag_g'', band2 = ''mag_r'',
             validation_data = Some ([Fin 0, Fin 1], [Fin (1 / 2), Fin (1 / 2)]),
             log_file = [],
             summary_file =
               [''g-r SUCCESS: L2Diff = '' @ g (Fin (sqrt 2)) @ ''\<newline>'',
                ''g-r FAILED: L1Diff = '' @ g (Fin (sqrt 2)) @ ''\<newline>'',
                ''g-r SUCCESS: K-S = '' @ g (Fin (5 * sqrt 2)) @ ''\<newline>''],
             no_cdf_q = False, no_pdf_q = True\<rparr>,
            TestResult ''PASSED'' [])"
proof -
  from scenario_histogram[of "[]"] obtain mb mh where
    cd: "color_distribution scenario_config scenario_catalog ''mag_g'' ''mag_r''
           (- 1, 4, 2000) (log_file fresh_state) = Inr ([], Some mb, Some mh)"
    and l: "length mh = 1999"
    by (auto simp: fresh_state_def)
  from l have "mh \<noteq> []" by auto
  from build_cdf_returns[OF this] obtain mcdf where mcdf: "build_cdf mh = Inr mcdf" by blast
  have idx: "0 < length (colors scenario_config)"
    and len: "3 \<le> length (colors scenario_config ! 0)"
    and t1: "translate scenario_config [colors scenario_config ! 0 ! 0] = Some ''mag_g''"
    and t2: "translate scenario_config [colors scenario_config ! 0 ! 2] = Some ''mag_r''"
    and pres: "''mag_g'' \<in> quantities scenario_catalog" "''mag_r'' \<in> quantities scenario_catalog"
    and nopdf: "\<not> plot_pdf_q scenario_config"
    by (simp_all add: scenario_config_def scenario_catalog_def)
  note step = color_step_completes[OF idx len t1 t2 scenario_reference pres cd mcdf nopdf]
  have init: "fresh_state\<lparr>no_cdf_q := True, no_pdf_q := True\<rparr> = fresh_state"
    by (simp add: fresh_state_def)
  have cols: "[0..<length (colors scenario_config)] = [0]"
    by (simp add: scenario_config_def)
  have lines: "summary_lines (scenario_env g) ''g-r''
                 ((Fin (sqrt 2), True), (Fin (3 * sqrt 2), False), (Fin (5 * sqrt 2), True))
    = [''g-r SUCCESS: L2Diff = '' @ g (Fin (sqrt 2)) @ ''\<newline>'',
       ''g-r FAILED: L1Diff = '' @ g (Fin (sqrt 2)) @ ''\<newline>'',
       ''g-r SUCCESS: K-S = '' @ g (Fin (5 * sqrt 2)) @ ''\<newline>'']"
    by (simp add: summary_lines_def scenario_env_def)
  have col: "colors scenario_config ! 0 = ''g-r''" by (simp add: scenario_config_def)
  have r: "color_steps (scenario_env g) scenario_config scenario_catalog [0] fresh_state
    = Inr (fresh_state\<lparr>band1 := ''mag_g'', band2 := ''mag_r'',
             validation_data := Some ([Fin 0, Fin 1], [Fin (1 / 2), Fin (1 / 2)]),
             log_file := [], no_cdf_q := False,
             summary_file := summary_file fresh_state
               @ [''g-r SUCCESS: L2Diff = '' @ g (Fin (sqrt 2)) @ ''\<newline>'',
                  ''g-r FAILED: L1Diff = '' @ g (Fin (sqrt 2)) @ ''\<newline>'',
                  ''g-r SUCCESS: K-S = '' @ g (Fin (5 * sqrt 2)) @ ''\<newline>'']\<rparr>, None)"
    by (simp add: step scenario_statistics col lines)
  show ?thesis
    unfolding run_validation_test_def init cols r
    by (simp add: end_of_run_def fresh_state_def)
qed


text \<open>
  C1. In the run on the scenario the catalog's bin centres and CDF have 1999 entries,
  and the three statistics returned as 1, 3 and 5 are reported as \<open>1 * sqrt 2\<close>,
  \<open>3 * sqrt 2\<close> and \<open>5 * sqrt 2\<close>: the factor is the square root of the number of keys
  of the dictionary \<open>d1\<close>, not of the number of entries of its arrays.
\<close>

theorem statistics_scaled_by_sqrt_two:
  "\<exists>mb mh mcdf.
      color_distribution scenario_config scenario_catalog ''mag_g'' ''mag_r'' (- 1, 4, 2000) []
        = Inr ([], Some mb, Some mh)
      \<and> build_cdf mh = Inr mcdf \<and> length mb = 1999 \<and> length mcdf = 1999
      \<and> scaled_statistics (scenario_env g) mb mcdf [Fin 0, Fin 1] [Fin (1 / 2), Fin 1]
          = ((Fin (1 * sqrt 2), True), (Fin (3 * sqrt 2), False), (Fin (5 * sqrt 2), True))
      \<and> sqrt 2 \<noteq> sqrt 1999"
proof -
  from scenario_histogram[of "[]"] obtain mb mh where
    cd: "color_distribution scenario_config scenario_catalog ''mag_g'' ''mag_r''
           (- 1, 4, 2000) [] = Inr ([], Some mb, Some mh)"
    and l: "length mb = 1999" "length mh = 1999"
    by auto
  from l have "mh \<noteq> []" by auto
  from build_cdf_returns[OF this] l obtain mcdf where
    mcdf: "build_cdf mh = Inr mcdf" "length mcdf = 1999" by auto
  show ?thesis
    using cd l(1) mcdf by (auto simp: scenario_statistics)
qed

text \<open>
  C4. In the run on the scenario, where \<open>L1Diff\<close> fails with the value 3 and \<open>L2Diff\<close>
  succeeds with the value 1, three lines are written to the summary file and the line
  of \<open>L1Diff\<close> carries the scaled value of \<open>L2\<close>, \<open>sqrt 2\<close>, while the scaled \<open>L1\<close> is
  \<open>3 * sqrt 2\<close>.
\<close>

theorem summary_l1_failed_line:
  "\<exists>st. run_validation_test (scenario_env g) scenario_config scenario_catalog fresh_state
           = Inr (st, TestResult ''PASSED'' [])
       \<and> summary_file st =
           [''g-r SUCCESS: L2Diff = '' @ g (Fin (sqrt 2)) @ ''\<newline>'',
            ''g-r FAILED: L1Diff = '' @ g (Fin (sqrt 2)) @ ''\<newline>'',
            ''g-r SUCCESS: K-S = '' @ g (Fin (5 * sqrt 2)) @ ''\<newline>'']
       \<and> fst (fst (snd (scaled_statistics (scenario_env g) mb mcdf ob ocdf))) = Fin (3 * sqrt 2)
       \<and> Fin (3 * sqrt 2) \<noteq> Fin (sqrt 2)"
  by (simp add: scenario_run scenario_statistics)


section \<open>No data and missing bands\<close>

text \<open>
  C3. Let the loop reach the colour at \<open>index\<close> (the earlier colours did not end the
  run), let its reference data load and its bands be declared by the catalog. If the
  first magnitude array is empty, or the mask is built and selects no element, the run returns
  \<open>SKIPPED\<close> in the state of that moment: the attributes of this colour are set, one
  line is added to the log, and no later colour has left a trace.
\<close>

theorem no_data_ends_run:
  assumes idx: "index < length (colors cfg)" and len: "3 \<le> length (colors cfg ! index)"
    and t1: "translate cfg [colors cfg ! index ! 0] = Some b1"
    and t2: "translate cfg [colors cfg ! index ! 2] = Some b2"
    and ld: "load_validation_data env (cdf_filename env cfg (colors cfg ! index))
               = Inr (obinctr, ohist)"
    and cdf: "build_cdf ohist = Inr ocdf"
    and pres: "b1 \<in> quantities cat" "b2 \<in> quantities cat"
    and pre: "color_steps env cfg cat [0..<index] (st0\<lparr>no_cdf_q := True, no_pdf_q := True\<rparr>)
                = Inr (st, None)"
    and nodata: "get_quantities cat b1 (zlo_mock cfg, zhi_mock cfg) = []
       \<or> (\<exists>msk.
             magnitude_mask cfg cat (get_quantities cat b1 (zlo_mock cfg, zhi_mock cfg))
               (get_quantities cat b2 (zlo_mock cfg, zhi_mock cfg)) = Inr msk
             \<and> np_sum_bool msk = 0)"
  shows "run_validation_test env cfg cat st0 =
     Inr (st\<lparr>band1 := b1, band2 := b2, validation_data := Some (obinctr, ohist),
            log_file := log_file st
              @ [if get_quantities cat b1 (zlo_mock cfg, zhi_mock cfg) = []
                 then ''No object in the redshift range!\<newline>''
                 else ''No object in the magnitude range!\<newline>'']\<rparr>,
          TestResult ''SKIPPED'' [])"
proof -
  have cd: "color_distribution cfg cat b1 b2 (- 1, 4, 2000) (log_file st)
    = Inr (log_file st
             @ [if get_quantities cat b1 (zlo_mock cfg, zhi_mock cfg) = []
                then ''No object in the redshift range!\<newline>''
                else ''No object in the magnitude range!\<newline>''], None, None)"
  proof (cases "get_quantities cat b1 (zlo_mock cfg, zhi_mock cfg) = []")
    case True
    then show ?thesis by (simp add: color_distribution_no_galaxy)
  next
    case False
    with nodata obtain msk where
      m: "magnitude_mask cfg cat (get_quantities cat b1 (zlo_mock cfg, zhi_mock cfg))
         (get_quantities cat b2 (zlo_mock cfg, zhi_mock cfg)) = Inr msk"
      and z: "np_sum_bool msk = 0" by blast
    from color_distribution_empty_mask[OF False quantity_filter_no_true[OF m z] z] False
    show ?thesis by simp
  qed
  note step = color_step_no_data[OF idx len t1 t2 ld cdf pres cd]
  show ?thesis
    unfolding run_from_index[OF idx pre]
    by (simp add: step end_of_run_def)
qed

theorem no_data_ends_run_witness:
  "run_validation_test (scenario_env (\<lambda>v. [])) three_color_config zero_catalog fresh_state =
     Inr (\<lparr>band1 = ''mag_g'', band2 = ''mag_r'',
            validation_data = Some ([Fin 0, Fin 1], [Fin (1 / 2), Fin (1 / 2)]),
            log_file = [missing_quantity_msg ''mag_u'' ''mag_g'',
                        ''No object in the magnitude range!\<newline>''],
            summary_file = [], no_cdf_q = True, no_pdf_q = True\<rparr>,
          TestResult ''SKIPPED'' [])"
proof -
  have idx: "1 < length (colors three_color_config)"
    and len: "3 \<le> length (colors three_color_config ! 1)"
    and t1: "translate three_color_config [colors three_color_config ! 1 ! 0] = Some ''mag_g''"
    and t2: "translate three_color_config [colors three_color_config ! 1 ! 2] = Some ''mag_r''"
    and pres: "''mag_g'' \<in> quantities zero_catalog" "''mag_r'' \<in> quantities zero_catalog"
    by (simp_all add: three_color_config_def zero_catalog_def)
  have pre: "color_steps (scenario_env (\<lambda>v. [])) three_color_config zero_catalog [0..<1]
               (fresh_state\<lparr>no_cdf_q := True, no_pdf_q := True\<rparr>)
     = Inr (\<lparr>band1 = ''mag_u'', band2 = ''mag_g'',
              validation_data = Some ([Fin 0, Fin 1], [Fin (1 / 2), Fin (1 / 2)]),
              log_file = [missing_quantity_msg ''mag_u'' ''mag_g''],
              summary_file = [], no_cdf_q = True, no_pdf_q = True\<rparr>, None)"
    by (simp add: color_step_def scenario_reference three_color_config_def zero_catalog_def
        fresh_state_def Let_def)
  have nodata: "get_quantities zero_catalog ''mag_g''
                  (zlo_mock three_color_config, zhi_mock three_color_config) = []
       \<or> (\<exists>msk.
             magnitude_mask three_color_config zero_catalog
               (get_quantities zero_catalog ''mag_g''
                  (zlo_mock three_color_config, zhi_mock three_color_config))
               (get_quantities zero_catalog ''mag_r''
                  (zlo_mock three_color_config, zhi_mock three_color_config))
               = Inr msk
             \<and> np_sum_bool msk = 0)"
    by (simp add: magnitude_mask_def validity_mask_def np_and_def
        np_binop_def np_sum_bool_def three_color_config_def zero_catalog_def)
  from no_data_ends_run[OF idx len t1 t2 scenario_reference pres pre nodata]
  show ?thesis by (simp add: zero_catalog_def)
qed





section \<open>The outcome of a run\<close>

lemma pdf_pass_outcome:
  assumes "pdf_pass env cfg cat index color st = Inr (st', r)"
  shows "no_cdf_q st' = no_cdf_q st \<and> (r = None \<or> r = Some (TestResult ''SKIPPED'' []))"
  using assms
  by (auto simp: pdf_pass_def Let_def ebind_eq_Inr split: option.splits if_splits prod.splits)

lemma histogram_without_log:
  assumes "color_distribution cfg cat b1 b2 bin_args lg = Inr (lg', Some mb, mh)"
  shows "\<exists>l. color_distribution cfg cat b1 b2 bin_args [] = Inr (l, Some mb, mh)"
  using assms color_distribution_log[of cfg cat b1 b2 bin_args lg]
  by (cases "color_distribution cfg cat b1 b2 bin_args []") auto

lemma color_step_reaches_bands:
  assumes "color_step env cfg cat index st = Inr (st', r)"
  shows "\<exists>b1 b2 obinctr ohist ocdf.
           index < length (colors cfg) \<and> 3 \<le> length (colors cfg ! index)
           \<and> translate cfg [colors cfg ! index ! 0] = Some b1
           \<and> translate cfg [colors cfg ! index ! 2] = Some b2
           \<and> load_validation_data env (cdf_filename env cfg (colors cfg ! index))
                = Inr (obinctr, ohist)
           \<and> build_cdf ohist = Inr ocdf"
proof -
  from assms have i: "index < length (colors cfg)"
    by (auto simp: color_step_def split: if_splits)
  have l0: "colors cfg ! index \<noteq> []"
  proof
    assume "colors cfg ! index = []"
    with i have "color_step env cfg cat index st = Inl IndexError"
      by (simp add: color_step_def)
    with assms show False by simp
  qed
  from i l0 assms obtain b1 where t1: "translate cfg [colors cfg ! index ! 0] = Some b1"
    by (cases "translate cfg [colors cfg ! index ! 0]") (auto simp: color_step_def Let_def)
  have l: "3 \<le> length (colors cfg ! index)"
  proof (rule ccontr)
    assume "\<not> 3 \<le> length (colors cfg ! index)"
    with i l0 t1 have "color_step env cfg cat index st = Inl IndexError"
      by (simp add: color_step_def)
    with assms show False by simp
  qed
  from i l0 l t1 assms obtain b2 where t2: "translate cfg [colors cfg ! index ! 2] = Some b2"
    by (cases "translate cfg [colors cfg ! index ! 2]") (auto simp: color_step_def Let_def)
  from i l0 l t1 t2 assms obtain obinctr ohist where
    ld: "load_validation_data env (cdf_filename env cfg (colors cfg ! index)) = Inr (obinctr, ohist)"
    by (cases "load_validation_data env (cdf_filename env cfg (colors cfg ! index))")
       (auto simp: color_step_def Let_def)
  from i l0 l t1 t2 ld assms obtain ocdf where "build_cdf ohist = Inr ocdf"
    by (cases "build_cdf ohist") (auto simp: color_step_def Let_def)
  with i l t1 t2 ld show ?thesis by blast
qed

lemma color_step_outcome:
  assumes "color_step env cfg cat index st = Inr (st', r)"
  shows "r = Some (TestResult ''SKIPPED'' [])
       \<or> (r = None
            \<and> (no_cdf_q st' \<longleftrightarrow> no_cdf_q st \<and> \<not> cdf_histogram_produced cfg cat index))"
proof -
  from color_step_reaches_bands[OF assms] obtain b1 b2 obinctr ohist ocdf where
    idx: "index < length (colors cfg)" and len: "3 \<le> length (colors cfg ! index)"
    and t1: "translate cfg [colors cfg ! index ! 0] = Some b1"
    and t2: "translate cfg [colors cfg ! index ! 2] = Some b2"
    and ld: "load_validation_data env (cdf_filename env cfg (colors cfg ! index))
               = Inr (obinctr, ohist)"
    and cdf: "build_cdf ohist = Inr ocdf"
    by blast
  note p = color_step_prefix[OF idx len t1 t2 ld cdf, of cat st]
  show ?thesis
  proof (cases "b1 \<in> quantities cat \<and> b2 \<in> quantities cat")
    case False
    with assms p have "r = None" "no_cdf_q st' = no_cdf_q st" by auto
    moreover from False have "\<not> cdf_histogram_produced cfg cat index"
      by (auto simp: cdf_histogram_produced_def t1 t2)
    ultimately show ?thesis by simp
  next
    case True
    with assms p obtain lg mbinctr mhist where
      cd: "color_distribution cfg cat b1 b2 (- 1, 4, 2000) (log_file st) = Inr (lg, mbinctr, mhist)"
      by (cases "color_distribution cfg cat b1 b2 (- 1, 4, 2000) (log_file st)") auto
    show ?thesis
    proof (cases mbinctr)
      case None
      with assms p True cd show ?thesis by simp
    next
      case (Some mb)
      from histogram_without_log[OF cd[unfolded Some]] True
      have prod: "cdf_histogram_produced cfg cat index"
        by (auto simp: cdf_histogram_produced_def t1 t2)
      from assms p True cd Some obtain mh mcdf where
        mh: "mhist = Some mh" and mcdf: "build_cdf mh = Inr mcdf"
        by (cases mhist; cases "build_cdf (the mhist)") auto
      show ?thesis
      proof (cases "plot_pdf_q cfg")
        case False
        with assms p True cd Some mh mcdf have "r = None" "no_cdf_q st' = False" by auto
        with prod show ?thesis by simp
      next
        case pdf: True
        with assms p True cd Some mh mcdf obtain s5 where
          pp: "pdf_pass env cfg cat index (colors cfg ! index) s5 = Inr (st', r)"
          and f: "no_cdf_q s5 = False"
          by auto
        from pdf_pass_outcome[OF pp] f prod show ?thesis by auto
      qed
    qed
  qed
qed

lemma color_steps_outcome:
  assumes "color_steps env cfg cat idxs st = Inr (st', r)"
  shows "r = Some (TestResult ''SKIPPED'' [])
       \<or> (r = None
            \<and> (no_cdf_q st' \<longleftrightarrow>
                 no_cdf_q st \<and> (\<forall>i\<in>set idxs. \<not> cdf_histogram_produced cfg cat i)))"
  using assms
proof (induction idxs arbitrary: st)
  case Nil
  then show ?case by simp
next
  case (Cons i rest)
  from Cons.prems obtain s1 r1 where s: "color_step env cfg cat i st = Inr (s1, r1)"
    by (cases "color_step env cfg cat i st") auto
  show ?case
  proof (cases r1)
    case None
    with Cons.prems s have "color_steps env cfg cat rest s1 = Inr (st', r)" by simp
    from Cons.IH[OF this] color_step_outcome[OF s] None show ?thesis by auto
  next
    case (Some res)
    with Cons.prems s have "r = Some res" "st' = s1" by simp_all
    with color_step_outcome[OF s] Some show ?thesis by simp
  qed
qed


lemma load_validation_data_stats [simp]:
  "load_validation_data (env\<lparr>L2Diff := fa, L1Diff := fb, KS_test := fc\<rparr>) f
     = load_validation_data env f"
  by (simp add: load_validation_data_def)

lemma cdf_filename_stats [simp]:
  "cdf_filename (env\<lparr>L2Diff := fa, L1Diff := fb, KS_test := fc\<rparr>) cfg c = cdf_filename env cfg c"
  by (simp add: cdf_filename_def)

lemma pdf_filename_stats [simp]:
  "pdf_filename (env\<lparr>L2Diff := fa, L1Diff := fb, KS_test := fc\<rparr>) cfg c b = pdf_filename env cfg c b"
  by (simp add: pdf_filename_def)

lemma pdf_pass_stats:
  "map_sum id (\<lambda>(s, r). (s\<lparr>summary_file := []\<rparr>, r))
       (pdf_pass (env\<lparr>L2Diff := fa, L1Diff := fb, KS_test := fc\<rparr>) cfg cat index color
          (st\<lparr>summary_file := x\<rparr>))
     = map_sum id (\<lambda>(s, r). (s\<lparr>summary_file := []\<rparr>, r))
         (pdf_pass env cfg cat index color (st\<lparr>summary_file := y\<rparr>))"
  by (auto simp: pdf_pass_def Let_def ebind_def split: option.splits sum.splits prod.splits)

lemma color_step_stats:
  "map_sum id (\<lambda>(s, r). (s\<lparr>summary_file := []\<rparr>, r))
       (color_step (env\<lparr>L2Diff := fa, L1Diff := fb, KS_test := fc\<rparr>) cfg cat index
          (st\<lparr>summary_file := x\<rparr>))
     = map_sum id (\<lambda>(s, r). (s\<lparr>summary_file := []\<rparr>, r))
         (color_step env cfg cat index st)"
proof -
  have pp: "map_sum id (\<lambda>(s, r). (s\<lparr>summary_file := []\<rparr>, r))
       (pdf_pass (env\<lparr>L2Diff := fa, L1Diff := fb, KS_test := fc\<rparr>) cfg cat index color
          (s\<lparr>summary_file := a\<rparr>))
     = map_sum id (\<lambda>(s, r). (s\<lparr>summary_file := []\<rparr>, r))
         (pdf_pass env cfg cat index color (s\<lparr>summary_file := b\<rparr>))" for s a b color
    by (rule pdf_pass_stats)
  show ?thesis
    unfolding color_step_def Let_def
    by (auto simp: ebind_def pp split: option.splits sum.splits prod.splits)
qed

lemma same_but_summary:
  assumes "(s2 :: run_state)\<lparr>summary_file := []\<rparr> = s1\<lparr>summary_file := []\<rparr>"
  shows "s2 = s1\<lparr>summary_file := summary_file s2\<rparr>" and "no_cdf_q s2 = no_cdf_q s1"
proof -
  from assms show "s2 = s1\<lparr>summary_file := summary_file s2\<rparr>"
    by (cases s1, cases s2) simp
  then have "no_cdf_q s2 = no_cdf_q (s1\<lparr>summary_file := summary_file s2\<rparr>)" by simp
  then show "no_cdf_q s2 = no_cdf_q s1" by simp
qed

lemma color_steps_stats:
  "map_sum id (\<lambda>(s, r). (s\<lparr>summary_file := []\<rparr>, r))
       (color_steps (env\<lparr>L2Diff := fa, L1Diff := fb, KS_test := fc\<rparr>) cfg cat idxs
          (st\<lparr>summary_file := x\<rparr>))
     = map_sum id (\<lambda>(s, r). (s\<lparr>summary_file := []\<rparr>, r))
         (color_steps env cfg cat idxs st)"
proof (induction idxs arbitrary: st x)
  case Nil
  show ?case by simp
next
  case (Cons i rest)
  let ?env' = "env\<lparr>L2Diff := fa, L1Diff := fb, KS_test := fc\<rparr>"
  note step = color_step_stats[where env=env and fa=fa and fb=fb and fc=fc and cfg=cfg and cat=cat
      and index=i and st=st and x=x]
  show ?case
  proof (cases "color_step env cfg cat i st")
    case (Inl e)
    with step have "color_step ?env' cfg cat i (st\<lparr>summary_file := x\<rparr>) = Inl e"
      by (cases "color_step ?env' cfg cat i (st\<lparr>summary_file := x\<rparr>)") auto
    with Inl show ?thesis by simp
  next
    case (Inr p)
    obtain s1 r1 where p: "p = (s1, r1)" by (cases p) auto
    from step Inr p obtain s2 where
      s2: "color_step ?env' cfg cat i (st\<lparr>summary_file := x\<rparr>) = Inr (s2, r1)"
      and e: "s2\<lparr>summary_file := []\<rparr> = s1\<lparr>summary_file := []\<rparr>"
      by (cases "color_step ?env' cfg cat i (st\<lparr>summary_file := x\<rparr>)") auto
    show ?thesis
    proof (cases r1)
      case None
      from same_but_summary(1)[OF e] have eq: "s2 = s1\<lparr>summary_file := summary_file s2\<rparr>" .
      have "color_steps ?env' cfg cat (i # rest) (st\<lparr>summary_file := x\<rparr>)
              = color_steps ?env' cfg cat rest (s1\<lparr>summary_file := summary_file s2\<rparr>)"
        using s2 None eq by simp
      moreover have "color_steps env cfg cat (i # rest) st = color_steps env cfg cat rest s1"
        using Inr p None by simp
      ultimately show ?thesis
        using Cons.IH[where st=s1 and x="summary_file s2"] by simp
    next
      case (Some res)
      with s2 Inr p e show ?thesis by simp
    qed
  qed
qed

lemma run_validation_test_stats:
  assumes "run_validation_test env cfg cat st0 = Inr (st, res)"
  shows "\<exists>st'. run_validation_test (env\<lparr>L2Diff := fa, L1Diff := fb, KS_test := fc\<rparr>) cfg cat st0
           = Inr (st', res)"
proof -
  let ?env' = "env\<lparr>L2Diff := fa, L1Diff := fb, KS_test := fc\<rparr>"
  let ?s = "st0\<lparr>no_cdf_q := True, no_pdf_q := True\<rparr>"
  have same: "?s\<lparr>summary_file := summary_file ?s\<rparr> = ?s" by simp
  from color_steps_stats[where env=env and fa=fa and fb=fb and fc=fc and cfg=cfg and cat=cat
      and idxs="[0..<length (colors cfg)]" and st="?s" and x="summary_file ?s"]
  have rel: "map_sum id (\<lambda>(s, r). (s\<lparr>summary_file := []\<rparr>, r))
       (color_steps ?env' cfg cat [0..<length (colors cfg)] ?s)
     = map_sum id (\<lambda>(s, r). (s\<lparr>summary_file := []\<rparr>, r))
         (color_steps env cfg cat [0..<length (colors cfg)] ?s)"
    unfolding same .
  from assms obtain s1 r1 where
    a: "color_steps env cfg cat [0..<length (colors cfg)] ?s = Inr (s1, r1)"
    by (cases "color_steps env cfg cat [0..<length (colors cfg)] ?s")
       (auto simp: run_validation_test_def end_of_run_def)
  with rel obtain s2 where
    b: "color_steps ?env' cfg cat [0..<length (colors cfg)] ?s = Inr (s2, r1)"
    and e: "s2\<lparr>summary_file := []\<rparr> = s1\<lparr>summary_file := []\<rparr>"
    by (cases "color_steps ?env' cfg cat [0..<length (colors cfg)] ?s") auto
  from same_but_summary(2)[OF e] have f: "no_cdf_q s2 = no_cdf_q s1" .
  from assms a have "end_of_run (Inr (s1, r1)) = Inr (st, res)"
    by (simp add: run_validation_test_def)
  then have "\<exists>st'. end_of_run (Inr (s2, r1)) = Inr (st', res)"
    using f by (cases r1) (auto simp: end_of_run_def)
  then show ?thesis
    by (simp add: run_validation_test_def b)
qed

lemma color_distribution_None:
  assumes "color_distribution cfg cat b1 b2 bin_args lg = Inr (lg', None, h)"
  shows "get_quantities cat b1 (zlo_mock cfg, zhi_mock cfg) = []
       \<or> (\<exists>msk. magnitude_mask cfg cat (get_quantities cat b1 (zlo_mock cfg, zhi_mock cfg))
                    (get_quantities cat b2 (zlo_mock cfg, zhi_mock cfg)) = Inr msk
                 \<and> np_sum_bool msk = 0)"
proof (cases "get_quantities cat b1 (zlo_mock cfg, zhi_mock cfg) = []")
  case True
  then show ?thesis by simp
next
  case ne: False
  obtain lo hi num where b: "bin_args = (lo, hi, num)" by (cases bin_args) auto
  from assms ne obtain m1 m2 msk where
    qf: "quantity_filter cfg cat (get_quantities cat b1 (zlo_mock cfg, zhi_mock cfg))
           (get_quantities cat b2 (zlo_mock cfg, zhi_mock cfg)) = Inr (m1, m2, msk)"
    by (cases "quantity_filter cfg cat (get_quantities cat b1 (zlo_mock cfg, zhi_mock cfg))
           (get_quantities cat b2 (zlo_mock cfg, zhi_mock cfg))")
       (auto simp: color_distribution_def)
  have "np_sum_bool msk = 0"
  proof (rule ccontr)
    assume cnt: "np_sum_bool msk \<noteq> 0"
    from assms[unfolded b color_distribution_histogram[OF ne qf cnt]]
    show False by (auto simp: ebind_eq_Inr)
  qed
  with quantity_filter_Inr(1)[OF qf] show ?thesis by blast
qed

lemma pdf_pass_skipped:
  assumes "pdf_pass env cfg cat index color st = Inr (st', Some res)"
  shows "\<exists>bin_args lg' h.
           color_distribution cfg cat (band1 st) (band2 st) bin_args (log_file st)
             = Inr (lg', None, h)"
proof -
  from assms obtain args where a: "color_bin_args cfg = Some args"
    and i: "\<not> length args \<le> index"
    by (auto simp: pdf_pass_def split: option.splits if_splits)
  show ?thesis
  proof (cases "color_distribution cfg cat (band1 st) (band2 st) (args ! index) (log_file st)")
    case (Inl e)
    with assms a i show ?thesis
      by (auto simp: pdf_pass_def Let_def ebind_def split: sum.splits prod.splits)
  next
    case (Inr r)
    obtain lg mb mh where r: "r = (lg, mb, mh)" by (cases r) auto
    show ?thesis
    proof (cases mb)
      case None
      with Inr r show ?thesis by blast
    next
      case (Some x)
      with assms a i Inr r show ?thesis
        by (auto simp: pdf_pass_def Let_def ebind_def split: sum.splits prod.splits)
    qed
  qed
qed

lemma no_data_signalledI:
  assumes "translate cfg [colors cfg ! index ! 0] = Some b1"
    and "translate cfg [colors cfg ! index ! 2] = Some b2"
    and "b1 \<in> quantities cat" "b2 \<in> quantities cat"
    and "get_quantities cat b1 (zlo_mock cfg, zhi_mock cfg) = []
       \<or> (\<exists>msk. magnitude_mask cfg cat (get_quantities cat b1 (zlo_mock cfg, zhi_mock cfg))
                    (get_quantities cat b2 (zlo_mock cfg, zhi_mock cfg)) = Inr msk
                 \<and> np_sum_bool msk = 0)"
  shows "no_data_signalled cfg cat index"
  using assms by (auto simp: no_data_signalled_def)

lemma color_step_skipped:
  assumes "color_step env cfg cat index st = Inr (st', Some res)"
  shows "no_data_signalled cfg cat index"
proof -
  from color_step_reaches_bands[OF assms] obtain b1 b2 obinctr ohist ocdf where
    idx: "index < length (colors cfg)" and len: "3 \<le> length (colors cfg ! index)"
    and t1: "translate cfg [colors cfg ! index ! 0] = Some b1"
    and t2: "translate cfg [colors cfg ! index ! 2] = Some b2"
    and ld: "load_validation_data env (cdf_filename env cfg (colors cfg ! index))
               = Inr (obinctr, ohist)"
    and cdf: "build_cdf ohist = Inr ocdf"
    by blast
  note p = color_step_prefix[OF idx len t1 t2 ld cdf, of cat st]
  have pres: "b1 \<in> quantities cat \<and> b2 \<in> quantities cat"
  proof (rule ccontr)
    assume "\<not> ?thesis"
    with assms p show False by auto
  qed
  with assms p obtain lg mbinctr mhist where
    cd: "color_distribution cfg cat b1 b2 (- 1, 4, 2000) (log_file st) = Inr (lg, mbinctr, mhist)"
    by (cases "color_distribution cfg cat b1 b2 (- 1, 4, 2000) (log_file st)") auto
  show ?thesis
  proof (cases mbinctr)
    case None
    from color_distribution_None[OF cd[unfolded None]] pres
    show ?thesis by (intro no_data_signalledI[OF t1 t2]) auto
  next
    case (Some mb)
    from assms p pres cd Some obtain mh mcdf where
      mh: "mhist = Some mh" and mcdf: "build_cdf mh = Inr mcdf"
      by (cases mhist; cases "build_cdf (the mhist)") auto
    have pdf: "plot_pdf_q cfg"
    proof (rule ccontr)
      assume "\<not> plot_pdf_q cfg"
      with assms p pres cd Some mh mcdf show False by auto
    qed
    with assms p pres cd Some mh mcdf obtain s5 where
      pp: "pdf_pass env cfg cat index (colors cfg ! index) s5 = Inr (st', Some res)"
      and b: "band1 s5 = b1" "band2 s5 = b2"
      by auto
    from pdf_pass_skipped[OF pp] b obtain bin_args lg' h where
      "color_distribution cfg cat b1 b2 bin_args (log_file s5) = Inr (lg', None, h)"
      by auto
    from color_distribution_None[OF this] pres
    show ?thesis by (intro no_data_signalledI[OF t1 t2]) auto
  qed
qed

lemma color_steps_no_return:
  assumes "color_steps env cfg cat idxs st = Inr (st', r)"
    and "\<forall>i\<in>set idxs. \<not> no_data_signalled cfg cat i"
  shows "r = None"
  using assms
proof (induction idxs arbitrary: st)
  case Nil
  then show ?case by simp
next
  case (Cons i rest)
  from Cons.prems(1) obtain s1 r1 where s: "color_step env cfg cat i st = Inr (s1, r1)"
    by (cases "color_step env cfg cat i st") auto
  show ?case
  proof (cases r1)
    case None
    with Cons.prems(1) s have "color_steps env cfg cat rest s1 = Inr (st', r)" by simp
    from Cons.IH[OF this] Cons.prems(2) show ?thesis by simp
  next
    case (Some res)
    from color_step_skipped[OF s[unfolded Some]] Cons.prems(2) show ?thesis by simp
  qed
qed

lemma pdf_pass_continues:
  assumes args: "color_bin_args cfg = Some args" and i: "index < length args"
    and le: "fst (args ! index) \<le> fst (snd (args ! index))"
    and num: "1 \<le> snd (snd (args ! index))"
    and ld: "load_validation_data env (pdf_filename env cfg color (args ! index)) = Inr ref"
    and ne: "get_quantities cat (band1 st) (zlo_mock cfg, zhi_mock cfg) \<noteq> []"
    and qf: "quantity_filter cfg cat (get_quantities cat (band1 st) (zlo_mock cfg, zhi_mock cfg))
           (get_quantities cat (band2 st) (zlo_mock cfg, zhi_mock cfg)) = Inr (m1, m2, msk)"
    and cnt: "np_sum_bool msk \<noteq> 0"
  shows "\<exists>st'. pdf_pass env cfg cat index color st = Inr (st', None)"
proof -
  obtain lo hi n where b: "args ! index = (lo, hi, n)" by (cases "args ! index") auto
  from le num b have le': "lo \<le> hi" and num': "1 \<le> n" by simp_all
  from color_distribution_returns[OF ne qf cnt le' num', of "log_file st"]
  obtain bs hs where
    cd: "color_distribution cfg cat (band1 st) (band2 st) (args ! index) (log_file st)
           = Inr (log_file st, Some bs, Some hs)"
    unfolding b by blast
  obtain ob oh where r: "ref = (ob, oh)" by (cases ref) auto
  from i have ni: "\<not> length args \<le> index" by simp
  show ?thesis
    unfolding pdf_pass_def Let_def
    by (simp add: args ni ld r cd)
qed

lemma color_step_continues:
  assumes idx: "index < length (colors cfg)"
    and ok: "color_inputs_ok env cfg cat index"
    and nd: "\<not> no_data_signalled cfg cat index"
  shows "\<exists>st'. color_step env cfg cat index st = Inr (st', None)"
proof -
  from ok have len: "3 \<le> length (colors cfg ! index)"
    by (simp add: color_inputs_ok_def)
  from ok obtain b1 where t1: "translate cfg [colors cfg ! index ! 0] = Some b1"
    by (cases "translate cfg [colors cfg ! index ! 0]") (auto simp: color_inputs_ok_def)
  from ok t1 obtain b2 where t2: "translate cfg [colors cfg ! index ! 2] = Some b2"
    by (cases "translate cfg [colors cfg ! index ! 2]") (auto simp: color_inputs_ok_def)
  from ok t1 t2 obtain obinctr ohist where
    ld: "load_validation_data env (cdf_filename env cfg (colors cfg ! index)) = Inr (obinctr, ohist)"
    and one: "ohist \<noteq> []"
    by (cases "load_validation_data env (cdf_filename env cfg (colors cfg ! index))")
       (auto simp: color_inputs_ok_def)
  from build_cdf_returns[OF one] obtain ocdf where cdf: "build_cdf ohist = Inr ocdf" by blast
  note p = color_step_prefix[OF idx len t1 t2 ld cdf, of cat st]
  show ?thesis
  proof (cases "b1 \<in> quantities cat \<and> b2 \<in> quantities cat")
    case False
    then show ?thesis unfolding p by simp
  next
    case pres: True
    let ?mag1 = "get_quantities cat b1 (zlo_mock cfg, zhi_mock cfg)"
    let ?mag2 = "get_quantities cat b2 (zlo_mock cfg, zhi_mock cfg)"
    from ok t1 t2 pres obtain m1 m2 msk where
      qf: "quantity_filter cfg cat ?mag1 ?mag2 = Inr (m1, m2, msk)"
      by (cases "quantity_filter cfg cat ?mag1 ?mag2") (auto simp: color_inputs_ok_def)
    from nd t1 t2 pres have ne: "?mag1 \<noteq> []"
      by (auto simp: no_data_signalled_def)
    from nd t1 t2 pres quantity_filter_Inr(1)[OF qf] have cnt: "np_sum_bool msk \<noteq> 0"
      by (auto simp: no_data_signalled_def)
    from color_distribution_returns[OF ne qf cnt, of "- 1" 4 2000 "log_file st"]
    obtain mb mh where
      cd: "color_distribution cfg cat b1 b2 (- 1, 4, 2000) (log_file st)
             = Inr (log_file st, Some mb, Some mh)"
      and l: "length mh = 1999"
      by auto
    from l have "mh \<noteq> []" by auto
    from build_cdf_returns[OF this] obtain mcdf where mcdf: "build_cdf mh = Inr mcdf" by blast
    show ?thesis
    proof (cases "plot_pdf_q cfg")
      case False
      with pres show ?thesis unfolding p by (simp add: cd mcdf)
    next
      case pdf: True
      from ok t1 t2 pres pdf obtain args where
        args: "color_bin_args cfg = Some args"
        by (cases "color_bin_args cfg") (auto simp: color_inputs_ok_def)
      from ok t1 t2 pres pdf args have
        i: "index < length args"
        and le: "fst (args ! index) \<le> fst (snd (args ! index))"
        and num: "1 \<le> snd (snd (args ! index))"
        by (auto simp: color_inputs_ok_def)
      from ok t1 t2 pres pdf args obtain ref where
        ld2: "load_validation_data env (pdf_filename env cfg (colors cfg ! index) (args ! index))
                = Inr ref"
        by (cases "load_validation_data env
                     (pdf_filename env cfg (colors cfg ! index) (args ! index))")
           (auto simp: color_inputs_ok_def)
      define s5 where "s5 = st\<lparr>band1 := b1, band2 := b2,
          validation_data := Some (obinctr, ohist), log_file := log_file st, no_cdf_q := False,
          summary_file := summary_file st
            @ summary_lines env (colors cfg ! index)
                (scaled_statistics env mb mcdf obinctr ocdf)\<rparr>"
      have b: "band1 s5 = b1" "band2 s5 = b2" by (simp_all add: s5_def)
      from pdf_pass_continues[OF args i le num ld2, of cat s5 m1 m2 msk] ne qf cnt
      obtain st' where "pdf_pass env cfg cat index (colors cfg ! index) s5 = Inr (st', None)"
        unfolding b by blast
      with pres pdf show ?thesis unfolding p by (simp add: cd mcdf s5_def)
    qed
  qed
qed

lemma color_steps_continue:
  assumes "\<forall>i\<in>set idxs. i < length (colors cfg) \<and> color_inputs_ok env cfg cat i
              \<and> \<not> no_data_signalled cfg cat i"
  shows "\<exists>st'. color_steps env cfg cat idxs st = Inr (st', None)"
  using assms
proof (induction idxs arbitrary: st)
  case Nil
  then show ?case by simp
next
  case (Cons i rest)
  from Cons.prems have "i < length (colors cfg)" "color_inputs_ok env cfg cat i"
    "\<not> no_data_signalled cfg cat i" by simp_all
  from color_step_continues[OF this] obtain s1 where
    s: "color_step env cfg cat i st = Inr (s1, None)" by blast
  from Cons.IH[of s1] Cons.prems obtain st' where
    "color_steps env cfg cat rest s1 = Inr (st', None)" by auto
  with s show ?case by simp
qed

lemma color_distribution_Some:
  assumes "color_distribution cfg cat b1 b2 bin_args lg = Inr (lg', Some mb, h)"
  shows "get_quantities cat b1 (zlo_mock cfg, zhi_mock cfg) \<noteq> []
       \<and> (\<exists>msk. magnitude_mask cfg cat (get_quantities cat b1 (zlo_mock cfg, zhi_mock cfg))
                    (get_quantities cat b2 (zlo_mock cfg, zhi_mock cfg)) = Inr msk
                 \<and> np_sum_bool msk \<noteq> 0)"
proof -
  have ne: "get_quantities cat b1 (zlo_mock cfg, zhi_mock cfg) \<noteq> []"
  proof
    assume "get_quantities cat b1 (zlo_mock cfg, zhi_mock cfg) = []"
    from color_distribution_no_galaxy[OF this, where ?b2.0=b2 and bin_args=bin_args and lg=lg]
      assms
    show False by simp
  qed
  from assms ne obtain m1 m2 msk where
    qf: "quantity_filter cfg cat (get_quantities cat b1 (zlo_mock cfg, zhi_mock cfg))
           (get_quantities cat b2 (zlo_mock cfg, zhi_mock cfg)) = Inr (m1, m2, msk)"
    by (cases "quantity_filter cfg cat (get_quantities cat b1 (zlo_mock cfg, zhi_mock cfg))
           (get_quantities cat b2 (zlo_mock cfg, zhi_mock cfg))")
       (auto simp: color_distribution_def)
  have cnt: "np_sum_bool msk \<noteq> 0"
  proof
    assume "np_sum_bool msk = 0"
    from color_distribution_empty_mask[OF ne qf this, where bin_args=bin_args and lg=lg] assms
    show False by simp
  qed
  from ne cnt quantity_filter_Inr(1)[OF qf] show ?thesis by blast
qed

lemma color_step_no_data_skips:
  assumes s: "color_step env cfg cat index st = Inr (st', r)"
    and nd: "no_data_signalled cfg cat index"
  shows "r = Some (TestResult ''SKIPPED'' [])"
proof -
  from color_step_reaches_bands[OF s] obtain b1 b2 obinctr ohist ocdf where
    idx: "index < length (colors cfg)" and len: "3 \<le> length (colors cfg ! index)"
    and t1: "translate cfg [colors cfg ! index ! 0] = Some b1"
    and t2: "translate cfg [colors cfg ! index ! 2] = Some b2"
    and ld: "load_validation_data env (cdf_filename env cfg (colors cfg ! index))
               = Inr (obinctr, ohist)"
    and cdf: "build_cdf ohist = Inr ocdf"
    by blast
  note p = color_step_prefix[OF idx len t1 t2 ld cdf, of cat st]
  from nd t1 t2 have pres: "b1 \<in> quantities cat" "b2 \<in> quantities cat"
    and empty: "get_quantities cat b1 (zlo_mock cfg, zhi_mock cfg) = []
       \<or> (case magnitude_mask cfg cat (get_quantities cat b1 (zlo_mock cfg, zhi_mock cfg))
                  (get_quantities cat b2 (zlo_mock cfg, zhi_mock cfg)) of
             Inl e \<Rightarrow> False
           | Inr msk \<Rightarrow> np_sum_bool msk = 0)"
    by (simp_all add: no_data_signalled_def)
  from s p pres obtain lg mbinctr mhist where
    cd: "color_distribution cfg cat b1 b2 (- 1, 4, 2000) (log_file st) = Inr (lg, mbinctr, mhist)"
    by (cases "color_distribution cfg cat b1 b2 (- 1, 4, 2000) (log_file st)") auto
  show ?thesis
  proof (cases mbinctr)
    case None
    from color_step_no_data[OF idx len t1 t2 ld cdf pres cd[unfolded None]] s
    show ?thesis by simp
  next
    case (Some mb)
    from color_distribution_Some[OF cd[unfolded Some]] empty show ?thesis by auto
  qed
qed

lemma color_steps_no_data_skips:
  assumes "color_steps env cfg cat idxs st = Inr (st', r)"
    and "\<exists>i\<in>set idxs. no_data_signalled cfg cat i"
  shows "r = Some (TestResult ''SKIPPED'' [])"
  using assms
proof (induction idxs arbitrary: st)
  case Nil
  then show ?case by simp
next
  case (Cons i rest)
  from Cons.prems(1) obtain s1 r1 where s: "color_step env cfg cat i st = Inr (s1, r1)"
    by (cases "color_step env cfg cat i st") auto
  show ?case
  proof (cases r1)
    case None
    with color_step_no_data_skips[OF s] have "\<not> no_data_signalled cfg cat i" by auto
    with Cons.prems(2) have rest: "\<exists>i\<in>set rest. no_data_signalled cfg cat i" by auto
    from None Cons.prems(1) s have "color_steps env cfg cat rest s1 = Inr (st', r)" by simp
    from Cons.IH[OF this rest] show ?thesis .
  next
    case (Some res)
    with Cons.prems(1) s have "r = Some res" by simp
    with color_step_outcome[OF s] Some show ?thesis by simp
  qed
qed

text \<open>
  A run that returns has the outcome \<open>SKIPPED\<close> exactly when one of the configured
  colours signals a no-data condition.
\<close>

lemma skipped_iff_no_data:
  assumes run: "run_validation_test env cfg cat st0 = Inr (st, res)"
  shows "res = TestResult ''SKIPPED'' []
           \<longleftrightarrow> (\<exists>i<length (colors cfg). no_data_signalled cfg cat i)"
proof -
  let ?s = "st0\<lparr>no_cdf_q := True, no_pdf_q := True\<rparr>"
  let ?idxs = "[0..<length (colors cfg)]"
  from run obtain s1 r1 where a: "color_steps env cfg cat ?idxs ?s = Inr (s1, r1)"
    by (cases "color_steps env cfg cat ?idxs ?s")
       (auto simp: run_validation_test_def end_of_run_def)
  show ?thesis
  proof (cases "\<exists>i<length (colors cfg). no_data_signalled cfg cat i")
    case True
    then have "\<exists>i\<in>set ?idxs. no_data_signalled cfg cat i" by auto
    from color_steps_no_data_skips[OF a this] run a True show ?thesis
      by (simp add: run_validation_test_def end_of_run_def)
  next
    case False
    then have "\<forall>i\<in>set ?idxs. \<not> no_data_signalled cfg cat i" by simp
    from color_steps_no_return[OF a this] run a False show ?thesis
      by (auto simp: run_validation_test_def end_of_run_def split: if_splits)
  qed
qed

lemma pdf_filter:
  "quantity_filter pdf_config scenario_catalog
       (get_quantities scenario_catalog ''mag_g'' (zlo_mock pdf_config, zhi_mock pdf_config))
       (get_quantities scenario_catalog ''mag_r'' (zlo_mock pdf_config, zhi_mock pdf_config))
     = Inr ([Fin 1, Fin 2, Fin 3], [Fin (1 / 2), Fin 1, Fin 2], [True, True, True, False, False])"
  by (simp add: quantity_filter_def magnitude_mask_def validity_mask_def np_and_def
      np_binop_def np_bool_index_def pdf_config_def scenario_config_def scenario_catalog_def
      upt_conv_Cons Let_def)

text \<open>
  C2. Let no configured colour signal a no-data condition. Then every run that returns
  returns \<open>PASSED\<close> if some configured colour produces a catalog histogram in the CDF
  pass and \<open>FAILED\<close> otherwise, with the empty message, and it returns the same result
  whatever the three statistic functions return. And the run does return, with that
  outcome, on inputs for which the body of the loop raises nothing. (By
  \<open>skipped_iff_no_data\<close>, the hypothesis holds of a run that returns exactly when its
  outcome is not \<open>SKIPPED\<close>.)
\<close>

theorem outcome_from_histograms:
  assumes nodata: "\<forall>i<length (colors cfg). \<not> no_data_signalled cfg cat i"
  shows "(\<forall>st res. run_validation_test env cfg cat st0 = Inr (st, res) \<longrightarrow>
            res = TestResult (if \<exists>i<length (colors cfg). cdf_histogram_produced cfg cat i
                              then ''PASSED'' else ''FAILED'') []
            \<and> (\<forall>l2 l1 ks. \<exists>st'.
                  run_validation_test (env\<lparr>L2Diff := l2, L1Diff := l1, KS_test := ks\<rparr>)
                    cfg cat st0 = Inr (st', res)))
       \<and> ((\<forall>i<length (colors cfg). color_inputs_ok env cfg cat i) \<longrightarrow>
            (\<exists>st. run_validation_test env cfg cat st0
                    = Inr (st, TestResult (if \<exists>i<length (colors cfg).
                                                 cdf_histogram_produced cfg cat i
                                            then ''PASSED'' else ''FAILED'') [])))"
proof -
  let ?s = "st0\<lparr>no_cdf_q := True, no_pdf_q := True\<rparr>"
  let ?idxs = "[0..<length (colors cfg)]"
  let ?out = "TestResult (if \<exists>i<length (colors cfg). cdf_histogram_produced cfg cat i
                          then ''PASSED'' else ''FAILED'') []"
  from nodata have nd: "\<forall>i\<in>set ?idxs. \<not> no_data_signalled cfg cat i" by simp
  have first: "res = ?out" if run: "run_validation_test env cfg cat st0 = Inr (st, res)"
    for st res
  proof -
    from run obtain s1 r1 where a: "color_steps env cfg cat ?idxs ?s = Inr (s1, r1)"
      by (cases "color_steps env cfg cat ?idxs ?s")
         (auto simp: run_validation_test_def end_of_run_def)
    from color_steps_no_return[OF a nd] have r1: "r1 = None" .
    from color_steps_outcome[OF a] r1
    have flag: "no_cdf_q s1 \<longleftrightarrow> (\<forall>i<length (colors cfg). \<not> cdf_histogram_produced cfg cat i)"
      by auto
    from run a r1
    have "res = TestResult (if \<not> no_cdf_q s1 then ''PASSED'' else ''FAILED'') []"
      by (auto simp: run_validation_test_def end_of_run_def)
    with flag show ?thesis by auto
  qed
  have second: "\<exists>st'. run_validation_test (env\<lparr>L2Diff := l2, L1Diff := l1, KS_test := ks\<rparr>)
                         cfg cat st0 = Inr (st', res)"
    if run: "run_validation_test env cfg cat st0 = Inr (st, res)" for st res l2 l1 ks
    using run by (rule run_validation_test_stats)
  have third: "\<exists>st. run_validation_test env cfg cat st0 = Inr (st, ?out)"
    if ok: "\<forall>i<length (colors cfg). color_inputs_ok env cfg cat i"
  proof -
    from ok nodata
    have "\<forall>i\<in>set ?idxs. i < length (colors cfg) \<and> color_inputs_ok env cfg cat i
            \<and> \<not> no_data_signalled cfg cat i"
      by simp
    from color_steps_continue[OF this, of ?s] obtain s1 where
      "color_steps env cfg cat ?idxs ?s = Inr (s1, None)" by blast
    then obtain res where run: "run_validation_test env cfg cat st0 = Inr (s1, res)"
      by (simp add: run_validation_test_def end_of_run_def)
    from first[OF run] run show ?thesis by blast
  qed
  from first second third show ?thesis by blast
qed

theorem outcome_from_histograms_witness:
  "\<not> no_data_signalled scenario_config scenario_catalog 0
   \<and> color_inputs_ok (scenario_env (\<lambda>v. [])) scenario_config scenario_catalog 0
   \<and> cdf_histogram_produced scenario_config scenario_catalog 0
   \<and> (\<exists>st. run_validation_test (scenario_env (\<lambda>v. [])) scenario_config scenario_catalog
              fresh_state = Inr (st, TestResult ''PASSED'' []))
   \<and> (\<forall>l2 l1 ks. \<exists>st'.
         run_validation_test
           ((scenario_env (\<lambda>v. []))\<lparr>L2Diff := l2, L1Diff := l1, KS_test := ks\<rparr>)
           scenario_config scenario_catalog fresh_state
         = Inr (st', TestResult ''PASSED'' []))
   \<and> plot_pdf_q pdf_config
   \<and> \<not> no_data_signalled pdf_config scenario_catalog 0
   \<and> color_inputs_ok (scenario_env (\<lambda>v. [])) pdf_config scenario_catalog 0
   \<and> (\<exists>st. run_validation_test (scenario_env (\<lambda>v. [])) pdf_config scenario_catalog
              fresh_state = Inr (st, TestResult ''PASSED'' []))
   \<and> \<not> no_data_signalled three_color_config bare_catalog 0
   \<and> \<not> no_data_signalled three_color_config bare_catalog 1
   \<and> \<not> no_data_signalled three_color_config bare_catalog 2
   \<and> color_inputs_ok (scenario_env (\<lambda>v. [])) three_color_config bare_catalog 0
   \<and> color_inputs_ok (scenario_env (\<lambda>v. [])) three_color_config bare_catalog 1
   \<and> color_inputs_ok (scenario_env (\<lambda>v. [])) three_color_config bare_catalog 2
   \<and> \<not> (\<exists>i<length (colors three_color_config).
           cdf_histogram_produced three_color_config bare_catalog i)
   \<and> (\<exists>st. run_validation_test (scenario_env (\<lambda>v. [])) three_color_config bare_catalog
              fresh_state = Inr (st, TestResult ''FAILED'' []))"
proof -
  let ?E = "scenario_env (\<lambda>v. [])"
  have t: "translate scenario_config [colors scenario_config ! 0 ! 0] = Some ''mag_g''"
    "translate scenario_config [colors scenario_config ! 0 ! 2] = Some ''mag_r''"
    by (simp_all add: scenario_config_def)
  have q: "''mag_g'' \<in> quantities scenario_catalog" "''mag_r'' \<in> quantities scenario_catalog"
    by (simp_all add: scenario_catalog_def)
  have ne: "get_quantities scenario_catalog ''mag_g''
              (zlo_mock scenario_config, zhi_mock scenario_config) \<noteq> []"
    by (simp add: scenario_catalog_def)
  note mm = quantity_filter_Inr(1)[OF scenario_filter]
  have cnt: "np_sum_bool [True, True, True, False, False] \<noteq> 0"
    by (simp add: np_sum_bool_def)
  have len1: "length (colors scenario_config) = 1" "3 \<le> length (colors scenario_config ! 0)"
    "\<not> plot_pdf_q scenario_config"
    by (simp_all add: scenario_config_def)
  have nd: "\<not> no_data_signalled scenario_config scenario_catalog 0"
    unfolding no_data_signalled_def t by (simp add: q ne mm cnt)
  have ok: "color_inputs_ok ?E scenario_config scenario_catalog 0"
    unfolding color_inputs_ok_def t
    by (simp add: len1 q scenario_reference scenario_filter)
  from scenario_histogram[of "[]"]
  have hp: "cdf_histogram_produced scenario_config scenario_catalog 0"
    unfolding cdf_histogram_produced_def t by (auto simp: q)
  from nd len1 have nd': "\<forall>i<length (colors scenario_config).
      \<not> no_data_signalled scenario_config scenario_catalog i" by simp
  from ok len1 have ok': "\<forall>i<length (colors scenario_config).
      color_inputs_ok ?E scenario_config scenario_catalog i" by simp
  from hp len1 have hp': "\<exists>i<length (colors scenario_config).
      cdf_histogram_produced scenario_config scenario_catalog i" by auto
  note a = outcome_from_histograms[OF nd', of ?E fresh_state]
  from a ok' hp' have run1: "\<exists>st. run_validation_test ?E scenario_config scenario_catalog
              fresh_state = Inr (st, TestResult ''PASSED'' [])"
    by auto
  from a run1 have ind: "\<forall>l2 l1 ks. \<exists>st'.
         run_validation_test (?E\<lparr>L2Diff := l2, L1Diff := l1, KS_test := ks\<rparr>)
           scenario_config scenario_catalog fresh_state
         = Inr (st', TestResult ''PASSED'' [])"
    by blast
  have tp: "translate pdf_config [colors pdf_config ! 0 ! 0] = Some ''mag_g''"
    "translate pdf_config [colors pdf_config ! 0 ! 2] = Some ''mag_r''"
    by (simp_all add: pdf_config_def scenario_config_def)
  have nep: "get_quantities scenario_catalog ''mag_g''
              (zlo_mock pdf_config, zhi_mock pdf_config) \<noteq> []"
    by (simp add: scenario_catalog_def)
  note mmp = quantity_filter_Inr(1)[OF pdf_filter]
  have lenp: "length (colors pdf_config) = 1" "3 \<le> length (colors pdf_config ! 0)"
    "plot_pdf_q pdf_config" "color_bin_args pdf_config = Some [(- 1, 4, 5)]"
    by (simp_all add: pdf_config_def scenario_config_def)
  have ndp: "\<not> no_data_signalled pdf_config scenario_catalog 0"
    unfolding no_data_signalled_def tp by (simp add: q nep mmp cnt)
  have okp: "color_inputs_ok ?E pdf_config scenario_catalog 0"
    unfolding color_inputs_ok_def tp
    by (simp add: lenp q scenario_reference pdf_filter)
  from color_distribution_returns[OF nep pdf_filter cnt, of "- 1" 4 2000 "[]"]
  have hpp: "cdf_histogram_produced pdf_config scenario_catalog 0"
    unfolding cdf_histogram_produced_def tp by (auto simp: q)
  from ndp lenp have ndp': "\<forall>i<length (colors pdf_config).
      \<not> no_data_signalled pdf_config scenario_catalog i" by simp
  from okp lenp have okp': "\<forall>i<length (colors pdf_config).
      color_inputs_ok ?E pdf_config scenario_catalog i" by simp
  from hpp lenp have hpp': "\<exists>i<length (colors pdf_config).
      cdf_histogram_produced pdf_config scenario_catalog i" by auto
  note c = outcome_from_histograms[OF ndp', of ?E fresh_state]
  from c okp' hpp' have runp: "\<exists>st. run_validation_test ?E pdf_config scenario_catalog
              fresh_state = Inr (st, TestResult ''PASSED'' [])"
    by auto
  have len3: "length (colors three_color_config) = 3"
    by (simp add: three_color_config_def)
  have nd3: "\<not> no_data_signalled three_color_config bare_catalog i" for i
    by (auto simp: no_data_signalled_def bare_catalog_def split: option.splits)
  have nh3: "\<not> (\<exists>i<length (colors three_color_config).
                 cdf_histogram_produced three_color_config bare_catalog i)"
    by (auto simp: cdf_histogram_produced_def bare_catalog_def split: option.splits)
  have ok3: "color_inputs_ok ?E three_color_config bare_catalog 0"
    "color_inputs_ok ?E three_color_config bare_catalog 1"
    "color_inputs_ok ?E three_color_config bare_catalog 2"
    by (simp_all add: color_inputs_ok_def three_color_config_def bare_catalog_def
        scenario_reference)
  have ok3': "\<forall>i<length (colors three_color_config).
      color_inputs_ok ?E three_color_config bare_catalog i"
  proof (intro allI impI)
    fix i assume "i < length (colors three_color_config)"
    with len3 have "i = 0 \<or> i = 1 \<or> i = 2" by auto
    with ok3 show "color_inputs_ok ?E three_color_config bare_catalog i" by auto
  qed
  from nd3 have nd3': "\<forall>i<length (colors three_color_config).
      \<not> no_data_signalled three_color_config bare_catalog i" by simp
  note b = outcome_from_histograms[OF nd3', of ?E fresh_state]
  from b ok3' nh3 have run3: "\<exists>st. run_validation_test ?E three_color_config bare_catalog
              fresh_state = Inr (st, TestResult ''FAILED'' [])"
    by auto
  from nd ok hp run1 ind lenp(3) ndp okp runp nd3[of 0] nd3[of 1] nd3[of 2] ok3 nh3 run3
  show ?thesis by (intro conjI)
qed

end
